theory Spec2Isabelle
  imports Main "HOL-Library.AList" "HOL-Library.Word"
begin

section \<open>The gloria HTTP client: a shallow embedding\<close>

text \<open>
  The Go package \<^verbatim>\<open>gloria\<close> builds an HTTP request from parts held in a
  \<^verbatim>\<open>Client[T]\<close>, sends it and decodes the answer. The functions of the package
  are translated one by one. Strings are byte lists, a Go \<^verbatim>\<open>error\<close> is its message
  (\<open>None\<close> is \<^verbatim>\<open>nil\<close>), a panic is a value of \<open>panic\<close> returned on the left of
  a sum, and a Go map is an association list whose order stands for the (unspecified)
  iteration order of \<^verbatim>\<open>range\<close>.

  Where the functions are in the source:
  \<^item> \<^verbatim>\<open>src/unnamed/part_002\<close>: the types (lines 143-261), \<^verbatim>\<open>Send\<close> (263-380),
    \<^verbatim>\<open>UsePreHooks\<close>, \<^verbatim>\<open>UsePostHooks\<close> (503-520), the logging transport and the
    \<^verbatim>\<open>Chalk\<close> helpers (628-732);
  \<^item> \<^verbatim>\<open>src/callback.go\<close>: \<^verbatim>\<open>New\<close> (87-118), the setters (417-672),
    \<^verbatim>\<open>createRequest\<close> (890-987), \<^verbatim>\<open>parseFullURLPath\<close> (995-1027),
    \<^verbatim>\<open>httpClientDefaultConf\<close> (1033-1069), \<^verbatim>\<open>isEmptyString\<close>, \<^verbatim>\<open>containsMethod\<close>,
    \<^verbatim>\<open>isValidMethod\<close>, \<^verbatim>\<open>isEmpty\<close> (1783-1865), \<^verbatim>\<open>urlSegments\<close> (1870-1909),
    \<^verbatim>\<open>convertToSMap\<close> (1914-1939), \<^verbatim>\<open>getBearerAuth\<close>, \<^verbatim>\<open>getBasicAuth\<close>
    (1959-1970).
\<close>

subsection \<open>Errors and panics\<close>

type_synonym err = string
type_synonym bytes = string

datatype panic =
    PanicIncompleteRequest    \<comment> \<open>"An incomplete request, must set the request method."\<close>
  | PanicInvalidMethod        \<comment> \<open>isValidMethod: \<^verbatim>\<open>Must choose one of ...\<close>\<close>
  | PanicScheme               \<comment> \<open>"scheme parameter: only support http/https protocol header"\<close>
  | PanicHost                 \<comment> \<open>"Invalid host or IP address with port."\<close>
  | PanicTooManyParams        \<comment> \<open>"There are too many dynamic routing parameters, ..."\<close>
  | PanicURLParse err         \<comment> \<open>\<^verbatim>\<open>URL parsing error: %w\<close>\<close>
  | PanicUnsupportedType string  \<comment> \<open>\<^verbatim>\<open>Unsupported value type for key '%s': %T\<close>\<close>
  | PanicNilDeref             \<comment> \<open>the runtime's nil pointer dereference\<close>
  | PanicInTransport          \<comment> \<open>a panic raised under \<^verbatim>\<open>http.Client.Do\<close>\<close>

subsection \<open>The functions of package strings that the code calls\<close>

text \<open>\<^verbatim>\<open>strings.Split(s, sep)\<close> for a separator of one byte. The empty string
  splits into one empty piece, as in Go.\<close>

fun Split :: "string \<Rightarrow> char \<Rightarrow> string list" where
  "Split [] sep = [[]]"
| "Split (x # xs) sep =
     (if x = sep then [] # Split xs sep
      else (case Split xs sep of
              [] \<Rightarrow> [[x]]
            | y # ys \<Rightarrow> (x # y) # ys))"

text \<open>\<^verbatim>\<open>strings.Join(elems, sep)\<close>.\<close>

fun Join :: "string list \<Rightarrow> string \<Rightarrow> string" where
  "Join [] sep = []"
| "Join [x] sep = x"
| "Join (x # y # ys) sep = x @ sep @ Join (y # ys) sep"

text \<open>\<^verbatim>\<open>strings.Replace(s, old, new, 1)\<close>: the first occurrence only. An empty
  \<open>old\<close> matches at the start of the string.\<close>

fun Replace1 :: "string \<Rightarrow> string \<Rightarrow> string \<Rightarrow> string" where
  "Replace1 s old new =
     (if take (length old) s = old then new @ drop (length old) s
      else (case s of [] \<Rightarrow> [] | x # xs \<Rightarrow> x # Replace1 xs old new))"

text \<open>\<^verbatim>\<open>strings.TrimRight(s, cutset)\<close>: drops the trailing bytes that occur in
  the cutset (the code only passes the one-byte cutsets "/" and "-").\<close>

definition TrimRight :: "string \<Rightarrow> string \<Rightarrow> string" where
  "TrimRight s cutset = rev (dropWhile (\<lambda>c. c \<in> set cutset) (rev s))"

subsection \<open>Constants\<close>

definition signSlash :: string where "signSlash = ''/''"
definition signHorizontal :: string where "signHorizontal = ''-''"
definition RootURL :: string where "RootURL = signSlash"
definition Placeholder :: string where "Placeholder = signHorizontal"

definition MethodGet :: string where "MethodGet = ''GET''"
definition MethodPost :: string where "MethodPost = ''POST''"
definition MethodPut :: string where "MethodPut = ''PUT''"
definition MethodDelete :: string where "MethodDelete = ''DELETE''"
definition MethodPatch :: string where "MethodPatch = ''PATCH''"
definition MethodHead :: string where "MethodHead = ''HEAD''"
definition MethodOptions :: string where "MethodOptions = ''OPTIONS''"

definition QueryMethods :: "string list" where
  "QueryMethods =
     [MethodGet, MethodPost, MethodPut, MethodDelete, MethodPatch, MethodHead, MethodOptions]"

definition ProtocolHttp :: string where "ProtocolHttp = ''http''"
definition ProtocolHttps :: string where "ProtocolHttps = ''https''"

definition AuthTypeBasic :: string where "AuthTypeBasic = ''Basic''"
definition AuthTypeBearer :: string where "AuthTypeBearer = ''Bearer''"

subsection \<open>Values of type \<^verbatim>\<open>any\<close> and the two map types\<close>

text \<open>
  The dynamic values the package inspects by type switch: the six types
  \<^verbatim>\<open>convertToSMap\<close> accepts, the nil interface and a nested map (both of which it
  rejects). A \<^verbatim>\<open>float64\<close> is its IEEE bit pattern. \<open>AInts\<close> is a non-nil
  \<^verbatim>\<open>[]int\<close> (possibly empty) and \<open>ANilInts\<close> the nil \<^verbatim>\<open>[]int\<close>: \<^verbatim>\<open>isEmpty\<close> tells
  them apart. For strings slices and maps it does not (it takes their length), so there
  the empty list stands for both.
\<close>

datatype any =
    ANil
  | AString string
  | AInt int
  | AFloat "64 word"
  | ABool bool
  | AStrings "string list"
  | AInts "int list"
  | ANilInts
  | AMap "(string \<times> any) list"

type_synonym H = "(string \<times> any) list"       \<comment> \<open>\<^verbatim>\<open>map[string]any\<close>\<close>
type_synonym SMap = "(string \<times> string) list"  \<comment> \<open>\<^verbatim>\<open>map[string]string\<close>\<close>

subsection \<open>URL parts\<close>

record urls =
  scheme :: string
  host :: string
  baseURI :: string
  endpoint :: string

text \<open>\<^verbatim>\<open>rawUrl\<close> embeds \<^verbatim>\<open>urls\<close> and adds the query parameters (its field
  \<^verbatim>\<open>params\<close>, renamed because the client has a field of that name).\<close>

record rawUrl = urls +
  raw_params :: H

text \<open>The part of \<^verbatim>\<open>*url.URL\<close> that the code reads: the scheme, the host, the
  path, and what \<^verbatim>\<open>Query()\<close> returns (each key with its list of values).\<close>

record URL =
  Scheme :: string
  Host :: string
  Path :: string
  Query :: "(string \<times> string list) list"

subsection \<open>The client and what it holds\<close>

record Meta =
  Method :: string
  Url :: string
  Duration :: int
  ReceivedAt :: int

text \<open>\<^verbatim>\<open>*log.Logger\<close>: the nil pointer or a logger.\<close>

datatype Logger = NilLogger | StdLogger

record Exception =
  CodeLocation :: string
  PanicError :: "err option"
  FailureReason :: string
  OccurrenceTime :: int

record 'a RESTFulResp =
  Code :: int
  Msg :: string
  Data :: 'a

text \<open>
  The interface \<^verbatim>\<open>JSONLibrary\<close>. \<^verbatim>\<open>Unmarshal(data, v)\<close> writes through the
  pointer \<open>v\<close> and returns an error; the code calls it at two pointer types,
  \<^verbatim>\<open>&c.Result\<close> (a pointer to the pointer to the envelope, which a decoder may reset to
  nil, as encoding/json does on the input \<^verbatim>\<open>null\<close>) and \<^verbatim>\<open>&c.Result.Data\<close>. Each
  gets the old value of the target and returns the new one with the error.
\<close>

record 'a JSONLibrary =
  Marshal :: "any \<Rightarrow> err + bytes"
  Unmarshal_Result :: "bytes \<Rightarrow> 'a RESTFulResp option \<Rightarrow> 'a RESTFulResp option \<times> err option"
  Unmarshal_Data :: "bytes \<Rightarrow> 'a \<Rightarrow> 'a \<times> err option"

record 'a Config =
  Timeout :: int
  SkipTLS :: bool
  FilterSlash :: bool
  IsDebug :: bool
  Logger :: Logger
  IsRestMode :: bool
  DefaultOkCode :: int
  JSONLoader :: "'a JSONLibrary"

record authorization =
  authType :: string
  bearerToken :: string
  basicUsername :: string
  basicPassword :: string

record Cookie =
  Name :: string
  Value :: string

record header =
  accept :: string
  contentType :: string
  language :: string
  cookies :: "Cookie list"
  userAgent :: string
  extra :: SMap

text \<open>What the code sets and reads of \<^verbatim>\<open>*http.Request\<close>, \<^verbatim>\<open>*http.Client\<close> and
  \<^verbatim>\<open>*http.Response\<close>. Reading the body and closing it are results the response
  carries: what \<^verbatim>\<open>ioutil.ReadAll(resp.Body)\<close> and \<^verbatim>\<open>resp.Body.Close()\<close> return.\<close>

record Request =
  req_Method :: string
  req_URL :: string
  Header :: "(string \<times> string list) list"
  Body :: "bytes option"

datatype Transport = DefaultTransport | PlainTransport bool | LoggedTransport bool

record HttpClient =
  hc_Timeout :: int
  hc_Transport :: Transport

record HttpResponse =
  StatusCode :: int
  ContentLength :: int
  ReadAll :: "err + bytes"
  Close :: "err option"

record Response =
  R :: "HttpResponse option"
  Status :: int
  bs :: bytes
  resp_text :: string
  resp_length :: int

record Context =
  HttpClient :: HttpClient
  Request :: "Request option"
  Response :: Response

text \<open>
  \<^verbatim>\<open>Client[T]\<close>. \<open>Result\<close> is a pointer the decoder can reset, so it is an option;
  the other pointers are set by the constructor and are never nil here. The two lists
  of middlewares are functions on the client, which a HOL record cannot hold in
  itself: they are kept beside it, in \<open>hooks\<close>.
\<close>

record 'a Client =
  Context :: Context
  Meta :: Meta
  Config :: "'a Config"
  Exception :: Exception
  Result :: "'a RESTFulResp option"
  urls :: urls
  params :: SMap
  authorization :: authorization
  headers :: header
  payload :: any

type_synonym 'a hook = "'a Client \<Rightarrow> 'a Client \<times> err option"

record 'a hooks =
  beforeRequest :: "'a hook list"
  afterResponse :: "'a hook list"

subsection \<open>The library and the world\<close>

text \<open>The places in \<^verbatim>\<open>createRequest\<close> and \<^verbatim>\<open>Send\<close> that build an
  \<^verbatim>\<open>Exception\<close>: each calls \<^verbatim>\<open>fileLocation(1)\<close> and \<^verbatim>\<open>time.Now().Unix()\<close>
  on a line of its own.\<close>

datatype site =
    SitePreHook | SiteMarshal | SiteNewRequest | SiteDo | SiteClose
  | SitePostHook | SiteReadAll | SiteEmptyBody | SiteUnmarshal | SiteStatus

text \<open>
  What the package calls outside itself, as parameters of the model:
  \<^verbatim>\<open>url.Parse\<close>, the regular expression of \<^verbatim>\<open>isValidHost\<close>, \<^verbatim>\<open>strconv.Atoi\<close>
  (\<open>None\<close> for an error) and whether \<^verbatim>\<open>net.ParseIP\<close> returns an address, both
  used by \<^verbatim>\<open>isValidIPAddrPort\<close>, \<^verbatim>\<open>url.Values.Encode\<close>, the checks of
  \<^verbatim>\<open>http.NewRequest\<close>, \<^verbatim>\<open>strings.ToUpper\<close>, \<^verbatim>\<open>strconv.FormatFloat\<close>,
  \<^verbatim>\<open>base64.StdEncoding.EncodeToString\<close>, the rendering of a cookie by
  \<^verbatim>\<open>AddCookie\<close>, \<^verbatim>\<open>runtime.Caller\<close> as seen through \<^verbatim>\<open>fileLocation\<close>, the
  clock, and \<^verbatim>\<open>http.Client.Do\<close>, which answers with an error or a response, or
  panics (\<open>None\<close>; the logging transport of the package reads the status of a nil
  response when the round trip fails).
\<close>

record golib =
  url_Parse :: "string \<Rightarrow> err + URL"
  hostRegexMatch :: "string \<Rightarrow> bool"
  Atoi :: "string \<Rightarrow> int option"
  ParseIP_ok :: "string \<Rightarrow> bool"
  Values_Encode :: "(string \<times> string list) list \<Rightarrow> string"
  NewRequest_err :: "string \<Rightarrow> string \<Rightarrow> err option"
  ToUpper :: "string \<Rightarrow> string"
  FormatFloat :: "64 word \<Rightarrow> string"
  base64 :: "string \<Rightarrow> string"
  cookie_pair :: "Cookie \<Rightarrow> string"
  fileLocation :: "site \<Rightarrow> nat \<Rightarrow> string"
  Now_Unix :: "site \<Rightarrow> int"
  Since_start :: int
  Now_received :: int
  client_Do :: "HttpClient \<Rightarrow> Request \<Rightarrow> (err + HttpResponse) option"


subsection \<open>urlSegments\<close>

text \<open>The loop \<^verbatim>\<open>for key, values := range queryParams\<close> that fills
  \<^verbatim>\<open>params\<close>.\<close>

definition collect_query :: "(string \<times> string list) list \<Rightarrow> H" where
  "collect_query q =
     fold (\<lambda>(key, values) params. AList.update key (AString (Join values '','')) params) q []"

definition urlSegments :: "golib \<Rightarrow> string \<Rightarrow> panic + rawUrl" where
  "urlSegments lib urlpath =
     (case url_Parse lib urlpath of
        Inl e \<Rightarrow> Inl (PanicURLParse e)
      | Inr parsedURL \<Rightarrow>
          (let path = Path parsedURL;
               params = collect_query (Query parsedURL);
               pathSegments = Split path CHR ''/'';
               seg = \<lparr> scheme = Scheme parsedURL, host = Host parsedURL,
                       baseURI = RootURL, endpoint = RootURL, raw_params = params \<rparr>
           in if length pathSegments = 2 then Inr (seg\<lparr> endpoint := path \<rparr>)
              else if length pathSegments > 2 then
                Inr (seg\<lparr> baseURI := baseURI seg @ pathSegments ! 1,
                          endpoint := endpoint seg @ Join (drop 2 pathSegments) signSlash \<rparr>)
              else Inr seg))"

subsection \<open>Small helpers of the package\<close>

definition isEmptyString :: "string \<Rightarrow> bool" where
  "isEmptyString s \<longleftrightarrow> s = [] \<or> s = signHorizontal"

definition containsMethod :: "string \<Rightarrow> bool" where
  "containsMethod s \<longleftrightarrow> s \<in> set QueryMethods"

text \<open>\<^verbatim>\<open>isEmpty(value)\<close> at a value of type \<^verbatim>\<open>any\<close>: the nil interface, the
  cases for strings, maps and string slices, and the default case, which compares with
  the zero value of the dynamic type by \<^verbatim>\<open>reflect.DeepEqual\<close>: both zeros of a float
  compare equal to 0, and a non-nil \<^verbatim>\<open>[]int\<close>, even an empty one, is not deeply equal
  to the nil slice.\<close>

fun isEmpty_any :: "any \<Rightarrow> bool" where
  "isEmpty_any ANil = True"
| "isEmpty_any (AString v) = (v = [])"
| "isEmpty_any (AMap v) = (v = [])"
| "isEmpty_any (AStrings v) = (v = [])"
| "isEmpty_any (AInt v) = (v = 0)"
| "isEmpty_any (AFloat v) = (v = 0 \<or> v = 0x8000000000000000)"
| "isEmpty_any (ABool v) = (\<not> v)"
| "isEmpty_any (AInts v) = False"
| "isEmpty_any ANilInts = True"

text \<open>The logging helpers \<^verbatim>\<open>ChalkStr\<close>, \<^verbatim>\<open>ChalkPrintf\<close> print through
  \<^verbatim>\<open>c.Config.Logger\<close>. The printed text is not part of the model; the call itself
  is, because it dereferences the logger: on a nil logger it panics.\<close>

definition Chalk :: "'a Client \<Rightarrow> panic option" where
  "Chalk c = (if Logger (Config c) = NilLogger then Some PanicNilDeref else None)"

text \<open>Sequencing of calls that may panic.\<close>

definition and_then :: "panic + 'b \<Rightarrow> ('b \<Rightarrow> panic + 'c) \<Rightarrow> panic + 'c" where
  "and_then r f = (case r of Inl p \<Rightarrow> Inl p | Inr x \<Rightarrow> f x)"

text \<open>\<^verbatim>\<open>strconv.Itoa\<close> and \<^verbatim>\<open>strconv.FormatBool\<close>.\<close>

fun nat_digits :: "nat \<Rightarrow> string" where
  "nat_digits n =
     (if n < 10 then [char_of (48 + n)]
      else nat_digits (n div 10) @ [char_of (48 + n mod 10)])"

definition Itoa :: "int \<Rightarrow> string" where
  "Itoa i = (if i < 0 then CHR ''-'' # nat_digits (nat (- i)) else nat_digits (nat i))"

definition FormatBool :: "bool \<Rightarrow> string" where
  "FormatBool b = (if b then ''true'' else ''false'')"

subsection \<open>convertToSMap\<close>

text \<open>The type switch: the string for a supported value, \<open>None\<close> for the default
  case.\<close>

fun convert_value :: "golib \<Rightarrow> any \<Rightarrow> string option" where
  "convert_value lib (AString v) = Some v"
| "convert_value lib (AInt v) = Some (Itoa v)"
| "convert_value lib (AFloat v) = Some (FormatFloat lib v)"
| "convert_value lib (ABool v) = Some (FormatBool v)"
| "convert_value lib (AStrings v) = Some (Join v '','')"
| "convert_value lib (AInts v) = Some (Join (map Itoa v) '','')"
| "convert_value lib ANilInts = Some (Join (map Itoa []) '','')"
| "convert_value lib ANil = None"
| "convert_value lib (AMap v) = None"

text \<open>The loop over the input map, with the output map built so far.\<close>

fun convert_loop :: "golib \<Rightarrow> H \<Rightarrow> SMap \<Rightarrow> panic + SMap" where
  "convert_loop lib [] output = Inr output"
| "convert_loop lib ((key, v) # rest) output =
     (case convert_value lib v of
        None \<Rightarrow> Inl (PanicUnsupportedType key)
      | Some s \<Rightarrow> convert_loop lib rest (AList.update key s output))"

definition convertToSMap :: "golib \<Rightarrow> H \<Rightarrow> panic + SMap" where
  "convertToSMap lib input = convert_loop lib input []"

subsection \<open>Setters\<close>

text \<open>\<^verbatim>\<open>isValidMethod\<close> returns nothing; it panics on a string that is not one of
  the seven verbs.\<close>

definition isValidMethod :: "string \<Rightarrow> panic option" where
  "isValidMethod s = (if \<not> containsMethod s then Some PanicInvalidMethod else None)"

definition SetMethod :: "golib \<Rightarrow> string \<Rightarrow> 'a Client \<Rightarrow> panic + 'a Client" where
  "SetMethod lib method c =
     (let method = ToUpper lib method
      in case isValidMethod method of
           Some p \<Rightarrow> Inl p
         | None \<Rightarrow> Inr (c\<lparr> Meta := (Meta c)\<lparr> Method := method \<rparr> \<rparr>))"

definition SetSchema :: "string \<Rightarrow> 'a Client \<Rightarrow> panic + 'a Client" where
  "SetSchema scheme0 c =
     (let sch = (if isEmptyString scheme0 then ProtocolHttp else scheme0)
      in if sch \<noteq> ProtocolHttp \<and> sch \<noteq> ProtocolHttps then
           (case Chalk c of Some p \<Rightarrow> Inl p | None \<Rightarrow> Inl PanicScheme)
         else Inr (c\<lparr> urls := (urls c)\<lparr> scheme := sch \<rparr> \<rparr>))"

definition isValidHost :: "golib \<Rightarrow> string \<Rightarrow> bool" where
  "isValidHost lib h = hostRegexMatch lib h"

text \<open>\<^verbatim>\<open>isValidIPAddrPort\<close>: with two parts the port must parse and lie in
  0..65535, and the case falls through to the check of the address.\<close>

definition isValidIPAddrPort :: "golib \<Rightarrow> string \<Rightarrow> bool" where
  "isValidIPAddrPort lib ipAddrPort =
     (case Split ipAddrPort CHR '':'' of
        [ip, port] \<Rightarrow>
          (case Atoi lib port of
             None \<Rightarrow> False
           | Some n \<Rightarrow> if n < 0 \<or> n > 65535 then False else ParseIP_ok lib ip)
      | [ip] \<Rightarrow> ParseIP_ok lib ip
      | _ \<Rightarrow> False)"

definition SetHost :: "golib \<Rightarrow> string \<Rightarrow> 'a Client \<Rightarrow> panic + 'a Client" where
  "SetHost lib host0 c =
     (let h = (if isEmptyString host0 then ''127.0.0.1:8080'' else host0)
      in if \<not> isValidHost lib h \<and> \<not> isValidIPAddrPort lib h then
           (case Chalk c of Some p \<Rightarrow> Inl p | None \<Rightarrow> Inl PanicHost)
         else Inr (c\<lparr> urls := (urls c)\<lparr> host := TrimRight h signSlash \<rparr> \<rparr>))"

text \<open>\<^verbatim>\<open>SetBaseURI\<close>: the loop over the two signs assigns the trimmed argument each
  time, so the last assignment stays.\<close>

definition SetBaseURI :: "string \<Rightarrow> 'a Client \<Rightarrow> panic + 'a Client" where
  "SetBaseURI baseUri c =
     (case (if isEmptyString baseUri \<and> IsDebug (Config c) then Chalk c else None) of
        Some p \<Rightarrow> Inl p
      | None \<Rightarrow>
          Inr (fold (\<lambda>v c. c\<lparr> urls := (urls c)\<lparr> baseURI := TrimRight baseUri v \<rparr> \<rparr>)
                 [signSlash, signHorizontal] c))"

definition SetEndpoint :: "string \<Rightarrow> 'a Client \<Rightarrow> panic + 'a Client" where
  "SetEndpoint endpoint0 c =
     (if isEmptyString endpoint0 then
        (case (if IsDebug (Config c) then Chalk c else None) of
           Some p \<Rightarrow> Inl p
         | None \<Rightarrow> Inr (c\<lparr> urls := (urls c)\<lparr> endpoint := RootURL \<rparr> \<rparr>))
      else if FilterSlash (Config c) then
        Inr (c\<lparr> urls := (urls c)\<lparr> endpoint := TrimRight endpoint0 signSlash \<rparr> \<rparr>)
      else Inr (c\<lparr> urls := (urls c)\<lparr> endpoint := endpoint0 \<rparr> \<rparr>))"

definition SetURL ::
  "golib \<Rightarrow> string \<Rightarrow> string \<Rightarrow> string \<Rightarrow> string \<Rightarrow> 'a Client \<Rightarrow> panic + 'a Client" where
  "SetURL lib scheme0 host0 baseUri endpoint0 c =
     and_then (SetSchema scheme0 c) (\<lambda>c.
     and_then (SetHost lib host0 c) (\<lambda>c.
     and_then (SetBaseURI baseUri c) (\<lambda>c.
     SetEndpoint endpoint0 c)))"

definition SetQueryParam :: "string \<Rightarrow> string \<Rightarrow> 'a Client \<Rightarrow> 'a Client" where
  "SetQueryParam key v c = c\<lparr> params := AList.update key v (params c) \<rparr>"

text \<open>The loop \<^verbatim>\<open>for key, value := range m { target[key] = value }\<close> of the two
  bulk setters.\<close>

definition assign_all :: "SMap \<Rightarrow> SMap \<Rightarrow> SMap" where
  "assign_all m target = fold (\<lambda>(key, v) t. AList.update key v t) m target"

definition SetQueryParams :: "golib \<Rightarrow> H \<Rightarrow> 'a Client \<Rightarrow> panic + 'a Client" where
  "SetQueryParams lib params0 c =
     (case convertToSMap lib params0 of
        Inl p \<Rightarrow> Inl p
      | Inr tempParams \<Rightarrow>
          if params c = [] then Inr (c\<lparr> params := tempParams \<rparr>)
          else Inr (c\<lparr> params := assign_all tempParams (params c) \<rparr>))"

definition SetHeader :: "string \<Rightarrow> string \<Rightarrow> 'a Client \<Rightarrow> 'a Client" where
  "SetHeader key v c = c\<lparr> headers := (headers c)\<lparr> extra := AList.update key v (extra (headers c)) \<rparr> \<rparr>"

definition SetHeaders :: "golib \<Rightarrow> H \<Rightarrow> 'a Client \<Rightarrow> panic + 'a Client" where
  "SetHeaders lib headers0 c =
     (case convertToSMap lib headers0 of
        Inl p \<Rightarrow> Inl p
      | Inr parseHeaders \<Rightarrow>
          if extra (headers c) = [] then
            Inr (c\<lparr> headers := (headers c)\<lparr> extra := parseHeaders \<rparr> \<rparr>)
          else
            Inr (c\<lparr> headers := (headers c)\<lparr> extra := assign_all parseHeaders (extra (headers c)) \<rparr> \<rparr>))"

text \<open>\<^verbatim>\<open>SetRequest\<close>. The switch on the number of route values has the cases 0, 1, 2
  and 3 and no default: with four values or more no case runs and \<^verbatim>\<open>tempPath\<close>
  keeps its zero value, the empty string.\<close>

fun dynamic_route :: "string \<Rightarrow> string list \<Rightarrow> panic + string" where
  "dynamic_route path [] = Inr path"
| "dynamic_route path [p0] = Inr (Replace1 path '':id'' p0)"
| "dynamic_route path [p0, p1] = Inr (Replace1 (Replace1 path '':id'' p0) '':sid'' p1)"
| "dynamic_route path [p0, p1, p2] = Inl PanicTooManyParams"
| "dynamic_route path pathParams = Inr []"

definition SetRequest ::
  "golib \<Rightarrow> string \<Rightarrow> string \<Rightarrow> string list \<Rightarrow> 'a Client \<Rightarrow> panic + 'a Client" where
  "SetRequest lib method path pathParams c =
     and_then (dynamic_route path pathParams) (\<lambda>tempPath.
     and_then (urlSegments lib tempPath) (\<lambda>parseUrl.
     and_then (SetMethod lib method c) (\<lambda>c.
     and_then (SetURL lib (scheme parseUrl) (host parseUrl) (baseURI parseUrl)
                 (endpoint parseUrl) c) (\<lambda>c.
     if method \<noteq> MethodOptions \<and> raw_params parseUrl \<noteq> [] then
       SetQueryParams lib (raw_params parseUrl) c
     else Inr c))))"

subsection \<open>Hooks\<close>

text \<open>\<^verbatim>\<open>UsePreHooks\<close> and \<^verbatim>\<open>UsePostHooks\<close> append the given functions in
  order (after a debug line when the debug flag is set).\<close>

definition UsePreHooks :: "'a Client \<Rightarrow> 'a hook list \<Rightarrow> 'a hooks \<Rightarrow> panic + 'a hooks" where
  "UsePreHooks c funcs hk =
     (case (if IsDebug (Config c) then Chalk c else None) of
        Some p \<Rightarrow> Inl p
      | None \<Rightarrow> Inr (hk\<lparr> beforeRequest := fold (\<lambda>fn l. l @ [fn]) funcs (beforeRequest hk) \<rparr>))"

definition UsePostHooks :: "'a Client \<Rightarrow> 'a hook list \<Rightarrow> 'a hooks \<Rightarrow> panic + 'a hooks" where
  "UsePostHooks c funcs hk =
     (case (if IsDebug (Config c) then Chalk c else None) of
        Some p \<Rightarrow> Inl p
      | None \<Rightarrow> Inr (hk\<lparr> afterResponse := fold (\<lambda>fn l. l @ [fn]) funcs (afterResponse hk) \<rparr>))"

text \<open>The loop \<^verbatim>\<open>for _, md := range hooks { if err := md(c); err != nil ... }\<close>:
  the client after the last hook that ran, and the error of the hook that stopped the
  loop, if one did. A hook is any function that changes the client and returns an error
  or nil.\<close>

fun run_hooks :: "'a hook list \<Rightarrow> 'a Client \<Rightarrow> 'a Client \<times> err option" where
  "run_hooks [] c = (c, None)"
| "run_hooks (md # mds) c =
     (case md c of
        (c', Some e) \<Rightarrow> (c', Some e)
      | (c', None) \<Rightarrow> run_hooks mds c')"

subsection \<open>Building the request\<close>

text \<open>The transport-class exception record built at a site for an error.\<close>

definition panic_exception :: "golib \<Rightarrow> site \<Rightarrow> err \<Rightarrow> Exception" where
  "panic_exception lib st e =
     \<lparr> CodeLocation = fileLocation lib st 1, PanicError = Some e,
       FailureReason = [], OccurrenceTime = Now_Unix lib st \<rparr>"

text \<open>\<^verbatim>\<open>url.Values.Add\<close> and the loop that copies the parameters into a
  \<^verbatim>\<open>url.Values\<close>.\<close>

definition Values_Add :: "string \<Rightarrow> string \<Rightarrow> (string \<times> string list) list \<Rightarrow> (string \<times> string list) list" where
  "Values_Add k v vals =
     AList.update k ((case map_of vals k of None \<Rightarrow> [] | Some vs \<Rightarrow> vs) @ [v]) vals"

definition parseFullURLPath :: "golib \<Rightarrow> 'a Client \<Rightarrow> 'a Client" where
  "parseFullURLPath lib c =
     (let urlPath =
            (if isEmptyString (Url (Meta c)) then
               (let u = urls c
                in if baseURI u = RootURL then scheme u @ ''://'' @ host u @ [] @ endpoint u
                   else scheme u @ ''://'' @ host u @ baseURI u @ endpoint u)
             else [])
      in if length (params c) = 0 then c\<lparr> Meta := (Meta c)\<lparr> Url := urlPath \<rparr> \<rparr>
         else
           (let queryParams = fold (\<lambda>(k, v) q. Values_Add k v q) (params c) [];
                encodedQueryParams = Values_Encode lib queryParams;
                fullURL = urlPath @ ''?'' @ encodedQueryParams
            in c\<lparr> Meta := (Meta c)\<lparr> Url := fullURL \<rparr> \<rparr>))"

text \<open>\<^verbatim>\<open>http.Header.Set\<close> and \<^verbatim>\<open>Get\<close> at keys that are canonical already, and
  \<^verbatim>\<open>Request.AddCookie\<close>.\<close>

definition Header_Set :: "string \<Rightarrow> string \<Rightarrow> Request \<Rightarrow> Request" where
  "Header_Set key v req = req\<lparr> Header := AList.update key [v] (Header req) \<rparr>"

definition Header_Get :: "string \<Rightarrow> Request \<Rightarrow> string" where
  "Header_Get key req = (case map_of (Header req) key of Some (v # vs) \<Rightarrow> v | _ \<Rightarrow> [])"

definition AddCookie :: "golib \<Rightarrow> Cookie \<Rightarrow> Request \<Rightarrow> Request" where
  "AddCookie lib ck req =
     (let s = cookie_pair lib ck; old = Header_Get ''Cookie'' req
      in if old \<noteq> [] then Header_Set ''Cookie'' (old @ ''; '' @ s) req
         else Header_Set ''Cookie'' s req)"

definition getBearerAuth :: "string \<Rightarrow> string" where
  "getBearerAuth token = AuthTypeBearer @ '' '' @ token"

definition getBasicAuth :: "golib \<Rightarrow> string \<Rightarrow> string \<Rightarrow> string" where
  "getBasicAuth lib username password =
     AuthTypeBasic @ '' '' @ base64 lib (username @ '':'' @ password)"

definition httpClientDefaultConf :: "int \<Rightarrow> bool \<Rightarrow> Logger \<Rightarrow> HttpClient" where
  "httpClientDefaultConf timeout skipTLS logFmt =
     \<lparr> hc_Timeout = timeout,
       hc_Transport = (if logFmt = NilLogger then PlainTransport skipTLS
                       else LoggedTransport skipTLS) \<rparr>"

text \<open>The headers, the authorization and the cookies laid on a fresh request, in the
  order of the source.\<close>

definition set_request_headers :: "golib \<Rightarrow> 'a Client \<Rightarrow> Request \<Rightarrow> Request" where
  "set_request_headers lib c req0 =
     (let h = headers c;
          req = (if length (extra h) > 0
                 then req0\<lparr> Header := fold (\<lambda>(k, v) hd. AList.update k [v] hd) (extra h) [] \<rparr>
                 else req0);
          req = (if userAgent h \<noteq> [] then Header_Set ''User-Agent'' (userAgent h) req else req);
          req = (if accept h \<noteq> [] then Header_Set ''Accept'' (accept h) req else req);
          req = (if contentType h \<noteq> [] then Header_Set ''Content-Type'' (contentType h) req else req);
          req = (if language h \<noteq> [] then Header_Set ''Content-Language'' (language h) req else req);
          a = authorization c;
          req = (if authType a = AuthTypeBasic then
                   Header_Set ''Authorization'' (getBasicAuth lib (basicUsername a) (basicPassword a)) req
                 else if authType a = AuthTypeBearer then
                   Header_Set ''Authorization'' (getBearerAuth (bearerToken a)) req
                 else req)
      in fold (\<lambda>v r. AddCookie lib v r) (cookies h) req)"

text \<open>
  \<^verbatim>\<open>createRequest\<close>. It panics when the method is empty. When marshalling the payload
  or \<^verbatim>\<open>http.NewRequest\<close> fails it records the error and returns early; in the second
  case the request stored in the context is nil.
\<close>

definition createRequest :: "golib \<Rightarrow> 'a Client \<Rightarrow> panic + 'a Client" where
  "createRequest lib c0 =
     (if isEmptyString (Method (Meta c0)) then Inl PanicIncompleteRequest
      else
        (let c = parseFullURLPath lib c0;
             body = (if isEmpty_any (payload c) then Inr None
                     else (case Marshal (JSONLoader (Config c)) (payload c) of
                             Inl e \<Rightarrow> Inl e
                           | Inr byteData \<Rightarrow> Inr (Some byteData)))
         in case body of
              Inl e \<Rightarrow> Inr (c\<lparr> Exception := panic_exception lib SiteMarshal e \<rparr>)
            | Inr bodyReader \<Rightarrow>
                (case NewRequest_err lib (Method (Meta c)) (Url (Meta c)) of
                   Some e \<Rightarrow>
                     Inr (c\<lparr> Context := (Context c)\<lparr> Request := None \<rparr>,
                             Exception := panic_exception lib SiteNewRequest e \<rparr>)
                 | None \<Rightarrow>
                     (let req = \<lparr> req_Method = Method (Meta c), req_URL = Url (Meta c),
                                  Header = [], Body = bodyReader \<rparr>;
                          req = set_request_headers lib c req;
                          client = httpClientDefaultConf (Timeout (Config c)) (SkipTLS (Config c))
                                     (Logger (Config c))
                      in Inr (c\<lparr> Context := (Context c)\<lparr> Request := Some req,
                                                        HttpClient := client \<rparr> \<rparr>)))))"

subsection \<open>Send\<close>

text \<open>The calls \<^verbatim>\<open>Send\<close> makes on the transport, on the response body and on the
  decoder, in the order they happen. \<open>EvUnmarshal\<close> carries the mode flag and the
  bytes handed to the decoder.\<close>

datatype event =
    EvDo HttpClient Request
  | EvReadAll
  | EvUnmarshal bool bytes
  | EvClose

text \<open>The decode step: the whole body goes to the decoder, with the envelope pointer as
  target in REST mode and the address of its \<^verbatim>\<open>Data\<close> field otherwise (taking that
  address panics when the envelope pointer is nil).\<close>

definition decode_body :: "'a Client \<Rightarrow> panic + ('a Client \<times> err option)" where
  "decode_body c =
     (let lib = JSONLoader (Config c); data = bs (Response (Context c))
      in if IsRestMode (Config c) then
           (case Unmarshal_Result lib data (Result c) of
              (r, errJson) \<Rightarrow> Inr (c\<lparr> Result := r \<rparr>, errJson))
         else
           (case Result c of
              None \<Rightarrow> Inl PanicNilDeref
            | Some r \<Rightarrow>
                (case Unmarshal_Data lib data (Data r) of
                   (d, errJson) \<Rightarrow> Inr (c\<lparr> Result := Some (r\<lparr> Data := d \<rparr>) \<rparr>, errJson))))"

text \<open>The business-class exception record built at a site for a failure reason.\<close>

definition failure_exception :: "golib \<Rightarrow> site \<Rightarrow> string \<Rightarrow> Exception" where
  "failure_exception lib st reason =
     \<lparr> CodeLocation = fileLocation lib st 1, PanicError = None,
       FailureReason = reason, OccurrenceTime = Now_Unix lib st \<rparr>"

text \<open>The two assignments to \<^verbatim>\<open>c.Meta\<close> after the round trip, and the assignment
  of \<^verbatim>\<open>c.Context.Response\<close> after the body was read (its \<^verbatim>\<open>length\<close> is the
  \<^verbatim>\<open>ContentLength\<close> the response declares, not the number of bytes read).\<close>

definition record_times :: "golib \<Rightarrow> 'a Client \<Rightarrow> 'a Client" where
  "record_times lib c =
     c\<lparr> Meta := (Meta c)\<lparr> Duration := Since_start lib, ReceivedAt := Now_received lib \<rparr> \<rparr>"

definition store_Response :: "'a Client \<Rightarrow> HttpResponse \<Rightarrow> bytes \<Rightarrow> 'a Client" where
  "store_Response c resp body =
     c\<lparr> Context := (Context c)\<lparr> Response :=
          \<lparr> R = Some resp, Status = StatusCode resp, bs = body,
            resp_text = body, resp_length = ContentLength resp \<rparr> \<rparr> \<rparr>"

text \<open>The part of \<^verbatim>\<open>Send\<close> after the deferred close has been registered: the
  timing fields, the response middlewares, reading the body, the length check, decoding,
  the debug line and the status check.\<close>

definition Send_response ::
  "golib \<Rightarrow> 'a hooks \<Rightarrow> 'a Client \<Rightarrow> HttpResponse \<Rightarrow> (panic + 'a Client) \<times> event list" where
  "Send_response lib hk c0 resp =
     (case run_hooks (afterResponse hk) (record_times lib c0) of
        (c, Some e) \<Rightarrow> (Inr (c\<lparr> Exception := panic_exception lib SitePostHook e \<rparr>), [])
      | (c, None) \<Rightarrow>
          (case ReadAll resp of
             Inl e \<Rightarrow> (Inr (c\<lparr> Exception := panic_exception lib SiteReadAll e \<rparr>), [EvReadAll])
           | Inr body \<Rightarrow>
               (let c = store_Response c resp body
                in if resp_length (Response (Context c)) = 0 then
                     (Inr (c\<lparr> Exception :=
                                panic_exception lib SiteEmptyBody ''response body length is 0'' \<rparr>),
                      [EvReadAll])
                   else
                     (let tr = [EvReadAll,
                                EvUnmarshal (IsRestMode (Config c)) (bs (Response (Context c)))]
                      in case decode_body c of
                           Inl p \<Rightarrow> (Inl p, [EvReadAll])
                         | Inr (c, Some errJson) \<Rightarrow>
                             (Inr (c\<lparr> Exception := panic_exception lib SiteUnmarshal errJson \<rparr>), tr)
                         | Inr (c, None) \<Rightarrow>
                             (case (if IsDebug (Config c) then Chalk c else None) of
                                Some p \<Rightarrow> (Inl p, tr)
                              | None \<Rightarrow>
                                  if Status (Response (Context c)) \<noteq> 200 then
                                    (case Result c of
                                       None \<Rightarrow> (Inl PanicNilDeref, tr)
                                     | Some r \<Rightarrow>
                                         (Inr (c\<lparr> Exception :=
                                                  failure_exception lib SiteStatus (Msg r) \<rparr>), tr))
                                  else (Inr c, tr))))))"

text \<open>The deferred function: it closes the body when \<^verbatim>\<open>Send\<close> leaves, by return
  or by panic. A close error replaces the exception and is logged (which panics on a
  nil logger). Every panic that can be under way here is a nil dereference, as is the
  one the deferred function can raise.\<close>

definition deferred_Close ::
  "golib \<Rightarrow> HttpResponse \<Rightarrow> (panic + 'a Client) \<times> event list \<Rightarrow> (panic + 'a Client) \<times> event list" where
  "deferred_Close lib resp out =
     (case Close resp of
        None \<Rightarrow> (fst out, snd out @ [EvClose])
      | Some e \<Rightarrow>
          (case fst out of
             Inl p \<Rightarrow> (Inl p, snd out @ [EvClose])
           | Inr c \<Rightarrow>
               (let c = c\<lparr> Exception := panic_exception lib SiteClose e \<rparr>
                in case Chalk c of
                     Some p \<Rightarrow> (Inl p, snd out @ [EvClose])
                   | None \<Rightarrow> (Inr c, snd out @ [EvClose]))))"

definition Send :: "golib \<Rightarrow> 'a hooks \<Rightarrow> 'a Client \<Rightarrow> (panic + 'a Client) \<times> event list" where
  "Send lib hk c0 =
     (case run_hooks (beforeRequest hk) c0 of
        (c, Some e) \<Rightarrow> (Inr (c\<lparr> Exception := panic_exception lib SitePreHook e \<rparr>), [])
      | (c, None) \<Rightarrow>
          (case createRequest lib c of
             Inl p \<Rightarrow> (Inl p, [])
           | Inr c \<Rightarrow>
               (case Request (Context c) of
                  None \<Rightarrow> (Inl PanicNilDeref, [])
                | Some req \<Rightarrow>
                    (case client_Do lib (HttpClient (Context c)) req of
                       None \<Rightarrow> (Inl PanicInTransport, [EvDo (HttpClient (Context c)) req])
                     | Some (Inl e) \<Rightarrow>
                         (Inr (c\<lparr> Exception := panic_exception lib SiteDo e \<rparr>),
                          [EvDo (HttpClient (Context c)) req])
                     | Some (Inr resp) \<Rightarrow>
                         (case deferred_Close lib resp (Send_response lib hk c resp) of
                            (out, tr) \<Rightarrow> (out, EvDo (HttpClient (Context c)) req # tr))))))"

text \<open>The exception of the client \<^verbatim>\<open>Send\<close> returned, if it returned.\<close>

definition returned_Exception :: "(panic + 'a Client) \<Rightarrow> Exception option" where
  "returned_Exception out = (case out of Inl p \<Rightarrow> None | Inr c \<Rightarrow> Some (Exception c))"

definition returned_Result :: "(panic + 'a Client) \<Rightarrow> 'a RESTFulResp option" where
  "returned_Result out = (case out of Inl p \<Rightarrow> None | Inr c \<Rightarrow> Result c)"

subsection \<open>The constructor\<close>

text \<open>\<^verbatim>\<open>New[T]()\<close>, given the native JSON library and the zero value of \<open>T\<close>.\<close>

definition New :: "'a JSONLibrary \<Rightarrow> 'a \<Rightarrow> 'a Client" where
  "New native zero =
     \<lparr> Context = \<lparr> HttpClient = \<lparr> hc_Timeout = 0, hc_Transport = DefaultTransport \<rparr>,
                   Request = Some \<lparr> req_Method = [], req_URL = [], Header = [], Body = None \<rparr>,
                   Response = \<lparr> R = None, Status = 0, bs = [], resp_text = [], resp_length = 0 \<rparr> \<rparr>,
       Meta = \<lparr> Method = [], Url = [], Duration = 0, ReceivedAt = 0 \<rparr>,
       Config = \<lparr> Timeout = 0, SkipTLS = False, FilterSlash = False, IsDebug = False,
                  Logger = NilLogger, IsRestMode = True, DefaultOkCode = 0,
                  JSONLoader = native \<rparr>,
       Exception = \<lparr> CodeLocation = [], PanicError = None, FailureReason = [], OccurrenceTime = 0 \<rparr>,
       Result = Some \<lparr> Code = 0, Msg = [], Data = zero \<rparr>,
       urls = \<lparr> scheme = [], host = [], baseURI = [], endpoint = [] \<rparr>,
       params = [],
       authorization = \<lparr> authType = [], bearerToken = [], basicUsername = [], basicPassword = [] \<rparr>,
       headers = \<lparr> accept = [], contentType = [], language = [], cookies = [],
                   userAgent = [], extra = [] \<rparr>,
       payload = ANil \<rparr>"

definition New_hooks :: "'a hooks" where
  "New_hooks = \<lparr> beforeRequest = [], afterResponse = [] \<rparr>"

subsection \<open>An instance for the examples\<close>

text \<open>
  The theorems below hold for every library, clock, transport and decoder. To run them
  on concrete inputs the examples use this instance: the URL parser answers as
  \<^verbatim>\<open>url.Parse\<close> does on a string that is only a path, the host checks know the
  default host only, the transport answers every request with one given response, and the
  decoder rejects the empty input and resets the envelope on \<^verbatim>\<open>null\<close>, as
  encoding/json does, and otherwise stores the body text as message and data.
\<close>

definition example_upper :: "string \<Rightarrow> string" where
  "example_upper s =
     map (\<lambda>ch. if 97 \<le> (of_char ch :: nat) \<and> (of_char ch :: nat) \<le> 122
                then char_of ((of_char ch :: nat) - 32) else ch) s"

definition example_lib :: "HttpResponse \<Rightarrow> golib" where
  "example_lib resp =
     \<lparr> url_Parse = (\<lambda>s. Inr \<lparr> Scheme = [], Host = [], Path = s, Query = [] \<rparr>),
       hostRegexMatch = (\<lambda>h. h = ''127.0.0.1:8080''),
       Atoi = (\<lambda>s. if s = ''8080'' then Some 8080 else None),
       ParseIP_ok = (\<lambda>s. s = ''127.0.0.1''),
       Values_Encode = (\<lambda>q. Join (concat (map (\<lambda>(k, vs). map (\<lambda>v. k @ ''='' @ v) vs) q)) ''&''),
       NewRequest_err = (\<lambda>m u. None),
       ToUpper = example_upper,
       FormatFloat = (\<lambda>w. ''0''),
       base64 = (\<lambda>s. s),
       cookie_pair = (\<lambda>ck. Name ck @ ''='' @ Value ck),
       fileLocation = (\<lambda>st depth. ''client.go''),
       Now_Unix = (\<lambda>st. 1700000000),
       Since_start = 5,
       Now_received = 1700000000,
       client_Do = (\<lambda>hc req. Some (Inr resp)) \<rparr>"

definition example_json :: "string JSONLibrary" where
  "example_json =
     \<lparr> Marshal = (\<lambda>v. Inr ''{}''),
       Unmarshal_Result =
         (\<lambda>data r. if data = [] then (r, Some ''unexpected end of JSON input'')
                    else if data = ''null'' then (None, None)
                    else (Some \<lparr> Code = 0, Msg = data, Data = data \<rparr>, None)),
       Unmarshal_Data =
         (\<lambda>data d. if data = [] then (d, Some ''unexpected end of JSON input'')
                    else (data, None)) \<rparr>"

text \<open>A fresh client with the method and the URL parts set by hand.\<close>

definition example_client :: "string Client" where
  "example_client =
     (New example_json [])
       \<lparr> Meta := \<lparr> Method = ''GET'', Url = [], Duration = 0, ReceivedAt = 0 \<rparr>,
         urls := \<lparr> scheme = ''http'', host = ''127.0.0.1:8080'', baseURI = ''/api'',
                   endpoint = ''/users'' \<rparr> \<rparr>"

text \<open>The request \<^verbatim>\<open>createRequest\<close> builds for that client, and the client it
  returns.\<close>

definition example_request :: Request where
  "example_request =
     \<lparr> req_Method = ''GET'', req_URL = ''http://127.0.0.1:8080/api/users'',
       Header = [], Body = None \<rparr>"

definition example_sent :: "string Client \<Rightarrow> string Client" where
  "example_sent c =
     c\<lparr> Meta := (Meta c)\<lparr> Url := ''http://127.0.0.1:8080/api/users'' \<rparr>,
        Context := (Context c)\<lparr> Request := Some example_request,
                     HttpClient := httpClientDefaultConf 0 False (Logger (Config c)) \<rparr> \<rparr>"

text \<open>Responses: a plain answer with the given status, declared length and body; and
  one whose body fails to close.\<close>

definition example_response :: "int \<Rightarrow> int \<Rightarrow> bytes \<Rightarrow> HttpResponse" where
  "example_response st len body =
     \<lparr> StatusCode = st, ContentLength = len, ReadAll = Inr body, Close = None \<rparr>"

definition example_response_unclosed :: "int \<Rightarrow> int \<Rightarrow> bytes \<Rightarrow> HttpResponse" where
  "example_response_unclosed st len body =
     \<lparr> StatusCode = st, ContentLength = len, ReadAll = Inr body, Close = Some ''close failed'' \<rparr>"

text \<open>The same client with a logger installed, and one in raw mode.\<close>

definition example_client_logged :: "string Client" where
  "example_client_logged =
     example_client\<lparr> Config := (Config example_client)\<lparr> Logger := StdLogger \<rparr> \<rparr>"

definition example_client_raw :: "string Client" where
  "example_client_raw =
     example_client\<lparr> Config := (Config example_client)\<lparr> IsRestMode := False \<rparr> \<rparr>"

text \<open>A client that enters with both fields of the exception record populated.\<close>

definition example_client_stale :: "string Client" where
  "example_client_stale =
     example_client\<lparr> Exception := \<lparr> CodeLocation = ''client.go'', PanicError = Some ''old error'',
                                      FailureReason = ''old reason'', OccurrenceTime = 1 \<rparr> \<rparr>"

text \<open>A fresh client on which \<^verbatim>\<open>SetMethod("get")\<close> was called, and a hook that
  clears the method.\<close>

definition example_client_get :: "string Client" where
  "example_client_get =
     (New example_json [])\<lparr> Meta := \<lparr> Method = ''GET'', Url = [], Duration = 0, ReceivedAt = 0 \<rparr> \<rparr>"

definition clearing_hook :: "string hook" where
  "clearing_hook c = (c\<lparr> Meta := (Meta c)\<lparr> Method := [] \<rparr> \<rparr>, None)"

definition failing_hook :: "string hook" where
  "failing_hook c = (c, Some ''signature failed'')"

definition passing_hook :: "string hook" where
  "passing_hook c = (SetHeader ''X-Seen'' ''1'' c, None)"

subsection \<open>Vocabulary of the statements\<close>

text \<open>The mapping the bulk setters should leave after \<open>m1\<close> and then \<open>m2\<close> were
  applied to a mapping \<open>old\<close>: a key of \<open>m2\<close> has the converted value of \<open>m2\<close>, a key
  of \<open>m1\<close> alone has the converted value of \<open>m1\<close>, any other key is as before.\<close>

definition merged :: "golib \<Rightarrow> H \<Rightarrow> H \<Rightarrow> (string \<rightharpoonup> string) \<Rightarrow> (string \<rightharpoonup> string)" where
  "merged lib m1 m2 old k =
     (case map_of m2 k of
        Some v \<Rightarrow> convert_value lib v
      | None \<Rightarrow> (case map_of m1 k of Some v \<Rightarrow> convert_value lib v | None \<Rightarrow> old k))"

text \<open>A mapping the type switch of \<^verbatim>\<open>convertToSMap\<close> accepts: every value has one
  of the six types.\<close>

definition supported :: "golib \<Rightarrow> H \<Rightarrow> bool" where
  "supported lib m \<longleftrightarrow> list_all (\<lambda>(k, v). convert_value lib v \<noteq> None) m"

text \<open>The three states of the exception record that the specification names, and the
  state it excludes. \<open>transport_only\<close> is the transport-class state with the failure
  reason empty.\<close>

definition no_exception :: "Exception \<Rightarrow> bool" where
  "no_exception e \<longleftrightarrow> PanicError e = None \<and> FailureReason e = []"

definition transport_exception :: "Exception \<Rightarrow> bool" where
  "transport_exception e \<longleftrightarrow> PanicError e \<noteq> None"

definition transport_only :: "Exception \<Rightarrow> bool" where
  "transport_only e \<longleftrightarrow> PanicError e \<noteq> None \<and> FailureReason e = []"

definition business_exception :: "Exception \<Rightarrow> bool" where
  "business_exception e \<longleftrightarrow> FailureReason e \<noteq> [] \<and> PanicError e = None"

definition both_populated :: "Exception \<Rightarrow> bool" where
  "both_populated e \<longleftrightarrow> PanicError e \<noteq> None \<and> FailureReason e \<noteq> []"

definition exactly_one :: "bool \<Rightarrow> bool \<Rightarrow> bool \<Rightarrow> bool" where
  "exactly_one a b c \<longleftrightarrow> (a \<and> \<not> b \<and> \<not> c) \<or> (\<not> a \<and> b \<and> \<not> c) \<or> (\<not> a \<and> \<not> b \<and> c)"

text \<open>A hook keeps the exception record well-formed when it never leaves both fields
  populated on a client that did not have both populated.\<close>

definition keeps_exception :: "'a hook \<Rightarrow> bool" where
  "keeps_exception h \<longleftrightarrow>
     (\<forall>c. \<not> both_populated (Exception c) \<longrightarrow> \<not> both_populated (Exception (fst (h c))))"

text \<open>
  How far a run of \<^verbatim>\<open>Send\<close> got. \<open>Send_dispatched\<close>: the request middlewares all
  passed, \<^verbatim>\<open>createRequest\<close> returned the client \<open>c\<close> holding the request \<open>req\<close>, and
  the round trip gave the response \<open>resp\<close>. \<open>Send_body_read\<close>: from there the response
  middlewares all passed and the body was read; \<open>c'\<close> is the client at the length check.
\<close>

definition Send_dispatched ::
  "golib \<Rightarrow> 'a hooks \<Rightarrow> 'a Client \<Rightarrow> 'a Client \<Rightarrow> Request \<Rightarrow> HttpResponse \<Rightarrow> bool" where
  "Send_dispatched lib hk c0 c req resp \<longleftrightarrow>
     snd (run_hooks (beforeRequest hk) c0) = None \<and>
     createRequest lib (fst (run_hooks (beforeRequest hk) c0)) = Inr c \<and>
     Request (Context c) = Some req \<and>
     client_Do lib (HttpClient (Context c)) req = Some (Inr resp)"

definition Send_body_read ::
  "golib \<Rightarrow> 'a hooks \<Rightarrow> 'a Client \<Rightarrow> HttpResponse \<Rightarrow> bytes \<Rightarrow> 'a Client \<Rightarrow> bool" where
  "Send_body_read lib hk c resp body c' \<longleftrightarrow>
     snd (run_hooks (afterResponse hk) (record_times lib c)) = None \<and>
     ReadAll resp = Inr body \<and>
     c' = store_Response (fst (run_hooks (afterResponse hk) (record_times lib c))) resp body"

section \<open>Properties\<close>

subsection \<open>Splitting and joining\<close>

lemma Split_nonempty: "Split s sep \<noteq> []"
  by (induction s) (auto split: list.splits)

lemma Split_no_sep: "sep \<notin> set s \<Longrightarrow> Split s sep = [s]"
  by (induction s) auto

lemma Split_append_sep:
  "sep \<notin> set s \<Longrightarrow> Split (s @ sep # t) sep = s # Split t sep"
  by (induction s) auto

lemma Split_Join:
  "segs \<noteq> [] \<Longrightarrow> \<forall>s \<in> set segs. sep \<notin> set s \<Longrightarrow> Split (Join segs [sep]) sep = segs"
proof (induction segs "[sep]" rule: Join.induct)
  case 1
  then show ?case by simp
next
  case (2 x)
  then show ?case by (simp add: Split_no_sep)
next
  case (3 x y ys)
  then show ?case by (simp add: Split_append_sep)
qed

lemma Split_rooted_path:
  assumes "\<forall>s \<in> set segs. CHR ''/'' \<notin> set s" and "segs \<noteq> []"
  shows "Split (CHR ''/'' # Join segs ''/'') CHR ''/'' = [] # segs"
  using assms by (simp add: Split_Join)

subsection \<open>C8: urlSegments on one segment and on several\<close>

text \<open>
  Claim C8. Let the path of the parsed URL be a slash followed by segments joined with
  slashes, no segment containing a slash. With exactly one segment, urlSegments returns
  the base path "/" and the whole path as endpoint. With two or more segments it returns
  "/" plus the first segment as base path and "/" plus the remaining segments, joined
  with "/", as endpoint.
\<close>

theorem urlSegments_segments:
  assumes parse: "url_Parse lib urlpath = Inr u"
    and segs: "\<forall>s \<in> set (s1 # rest). CHR ''/'' \<notin> set s"
    and path: "Path u = ''/'' @ Join (s1 # rest) ''/''"
  shows "\<exists>seg. urlSegments lib urlpath = Inr seg \<and>
           (rest = [] \<longrightarrow> baseURI seg = ''/'' \<and> endpoint seg = Path u) \<and>
           (rest \<noteq> [] \<longrightarrow> baseURI seg = ''/'' @ s1 \<and> endpoint seg = ''/'' @ Join rest ''/'')"
proof -
  have sp: "Split (Path u) CHR ''/'' = [] # s1 # rest"
    using Split_rooted_path [of "s1 # rest"] segs path by simp
  show ?thesis
  proof (cases rest)
    case Nil
    with sp parse show ?thesis
      by (simp add: urlSegments_def Let_def RootURL_def signSlash_def)
  next
    case (Cons s2 more)
    with sp parse show ?thesis
      by (simp add: urlSegments_def Let_def RootURL_def signSlash_def)
  qed
qed

theorem urlSegments_segments_witness:
  "\<exists>seg. urlSegments (example_lib (example_response 200 0 [])) ''/users/7/posts'' = Inr seg
     \<and> baseURI seg = ''/users'' \<and> endpoint seg = ''/7/posts''"
proof -
  let ?lib = "example_lib (example_response 200 0 [])"
  have p1: "url_Parse ?lib ''/users/7/posts'' =
      Inr \<lparr> Scheme = [], Host = [], Path = ''/users/7/posts'', Query = [] \<rparr>"
    by (simp add: example_lib_def)
  have p2: "\<forall>s \<in> set [''users'', ''7'', ''posts'']. CHR ''/'' \<notin> set s"
    by simp
  have p3: "Path \<lparr> Scheme = [], Host = [], Path = ''/users/7/posts'', Query = [] \<rparr> =
      ''/'' @ Join [''users'', ''7'', ''posts''] ''/''"
    by simp
  show ?thesis
    using urlSegments_segments [OF p1 p2 p3] by simp
qed

subsection \<open>C9: the bulk setters merge\<close>

lemma convert_loop_map_of:
  "convert_loop lib m acc = Inr s \<Longrightarrow> distinct (map fst m) \<Longrightarrow>
   map_of s k = (case map_of m k of Some v \<Rightarrow> convert_value lib v | None \<Rightarrow> map_of acc k)"
proof (induction lib m acc rule: convert_loop.induct)
  case (1 lib acc)
  then show ?case by simp
next
  case (2 lib key v rest acc)
  then show ?case
    by (auto split: option.splits simp: update_conv' map_of_eq_None_iff image_iff)
qed

lemma convertToSMap_map_of:
  "convertToSMap lib m = Inr s \<Longrightarrow> distinct (map fst m) \<Longrightarrow>
   map_of s k = (case map_of m k of Some v \<Rightarrow> convert_value lib v | None \<Rightarrow> None)"
  using convert_loop_map_of [of lib m "[]" s k]
  by (simp add: convertToSMap_def split: option.splits)

lemma convert_loop_supported:
  "convert_loop lib m acc = Inr s \<Longrightarrow> (k, v) \<in> set m \<Longrightarrow> convert_value lib v \<noteq> None"
proof (induction lib m acc rule: convert_loop.induct)
  case (1 lib acc)
  then show ?case by simp
next
  case (2 lib key v' rest acc)
  then show ?case
    by (auto split: option.splits)
qed

lemma convertToSMap_supported:
  "convertToSMap lib m = Inr s \<Longrightarrow> map_of m k = Some v \<Longrightarrow> \<exists>x. convert_value lib v = Some x"
  using convert_loop_supported [of lib m "[]" s k v] by (auto simp: convertToSMap_def dest: map_of_SomeD)

lemma convertToSMap_merge:
  assumes s1: "convertToSMap lib m1 = Inr s1" and s2: "convertToSMap lib m2 = Inr s2"
    and d1: "distinct (map fst m1)" and d2: "distinct (map fst m2)"
  shows "(old ++ map_of s1) ++ map_of s2 = merged lib m1 m2 old"
proof (rule ext)
  fix k
  show "((old ++ map_of s1) ++ map_of s2) k = merged lib m1 m2 old k"
    using convertToSMap_map_of [OF s1 d1, of k] convertToSMap_map_of [OF s2 d2, of k]
      convertToSMap_supported [OF s1, of k] convertToSMap_supported [OF s2, of k]
    by (auto simp: merged_def map_add_def split: option.splits)
qed

lemma convert_loop_distinct:
  "convert_loop lib m acc = Inr s \<Longrightarrow> distinct (map fst acc) \<Longrightarrow> distinct (map fst s)"
proof (induction lib m acc rule: convert_loop.induct)
  case (1 lib acc)
  then show ?case by simp
next
  case (2 lib key v rest acc)
  then show ?case
    by (auto split: option.splits simp: distinct_update)
qed

lemma convertToSMap_distinct: "convertToSMap lib m = Inr s \<Longrightarrow> distinct (map fst s)"
  unfolding convertToSMap_def by (drule convert_loop_distinct) auto

lemma map_of_rev_distinct: "distinct (map fst m) \<Longrightarrow> map_of (rev m) = map_of m"
proof (induction m)
  case Nil
  then show ?case by simp
next
  case (Cons a m)
  obtain k v where a: "a = (k, v)" by (cases a)
  from Cons.prems have "map_of m k = None"
    by (auto simp: a map_of_eq_None_iff)
  with Cons show ?case
    by (auto simp: a map_add_def fun_eq_iff split: option.splits)
qed

lemma assign_all_map_of: "map_of (assign_all m t) = map_of t ++ map_of (rev m)"
  unfolding assign_all_def
proof (induction m arbitrary: t)
  case Nil
  then show ?case by simp
next
  case (Cons a m)
  obtain k v where a: "a = (k, v)" by (cases a)
  show ?case
    by (auto simp: a Cons update_conv' map_add_def fun_eq_iff split: option.splits) 
qed

lemma assign_all_distinct: "distinct (map fst m) \<Longrightarrow> map_of (assign_all m t) = map_of t ++ map_of m"
  by (simp add: assign_all_map_of map_of_rev_distinct)

lemma SetQueryParams_map_of:
  assumes "SetQueryParams lib m c = Inr c'"
  shows "\<exists>s. convertToSMap lib m = Inr s \<and> map_of (params c') = map_of (params c) ++ map_of s
      \<and> c' = c\<lparr> params := params c' \<rparr>"
  using assms
  by (auto simp: SetQueryParams_def assign_all_distinct convertToSMap_distinct
      split: sum.splits if_splits)

lemma SetHeaders_map_of:
  assumes "SetHeaders lib m c = Inr c'"
  shows "\<exists>s. convertToSMap lib m = Inr s \<and>
      map_of (extra (headers c')) = map_of (extra (headers c)) ++ map_of s
      \<and> c' = c\<lparr> headers := (headers c)\<lparr> extra := extra (headers c') \<rparr> \<rparr>"
  using assms
  by (auto simp: SetHeaders_def assign_all_distinct convertToSMap_distinct
      split: sum.splits if_splits)

lemma convert_loop_returns:
  "(\<exists>s. convert_loop lib m acc = Inr s) \<longleftrightarrow>
     list_all (\<lambda>(k, v). convert_value lib v \<noteq> None) m"
  by (induction lib m acc rule: convert_loop.induct) (auto split: option.splits)

lemma convertToSMap_returns: "(\<exists>s. convertToSMap lib m = Inr s) \<longleftrightarrow> supported lib m"
  by (simp add: convertToSMap_def supported_def convert_loop_returns)

lemma SetQueryParams_returns:
  "(\<exists>c1. SetQueryParams lib m c = Inr c1) \<longleftrightarrow> supported lib m"
  using convertToSMap_returns [of lib m]
  by (cases "convertToSMap lib m") (auto simp: SetQueryParams_def)

lemma SetHeaders_returns:
  "(\<exists>c1. SetHeaders lib m c = Inr c1) \<longleftrightarrow> supported lib m"
  using convertToSMap_returns [of lib m]
  by (cases "convertToSMap lib m") (auto simp: SetHeaders_def)

lemma bulk_setters_union:
  assumes d1: "distinct (map fst m1)" and d2: "distinct (map fst m2)"
  shows "(SetQueryParams lib m1 c = Inr c1 \<and> SetQueryParams lib m2 c1 = Inr c2 \<longrightarrow>
            map_of (params c2) = merged lib m1 m2 (map_of (params c)))
       \<and> (SetHeaders lib m1 c = Inr c1 \<and> SetHeaders lib m2 c1 = Inr c2 \<longrightarrow>
            map_of (extra (headers c2)) = merged lib m1 m2 (map_of (extra (headers c))))
       \<and> (SetQueryParams lib m1 c = Inr c1 \<longrightarrow>
            (\<exists>c3. SetQueryParams lib m1 c1 = Inr c3 \<and> map_of (params c3) = map_of (params c1)))
       \<and> (SetHeaders lib m1 c = Inr c1 \<longrightarrow>
            (\<exists>c3. SetHeaders lib m1 c1 = Inr c3 \<and>
                  map_of (extra (headers c3)) = map_of (extra (headers c1))))"
proof (intro conjI impI)
  assume a: "SetQueryParams lib m1 c = Inr c1 \<and> SetQueryParams lib m2 c1 = Inr c2"
  then obtain s1 s2 where s1: "convertToSMap lib m1 = Inr s1"
      and p1: "map_of (params c1) = map_of (params c) ++ map_of s1"
      and s2: "convertToSMap lib m2 = Inr s2"
      and p2: "map_of (params c2) = map_of (params c1) ++ map_of s2"
    using SetQueryParams_map_of by blast
  show "map_of (params c2) = merged lib m1 m2 (map_of (params c))"
    using convertToSMap_merge [OF s1 s2 d1 d2] by (simp add: p1 p2)
next
  assume a: "SetHeaders lib m1 c = Inr c1 \<and> SetHeaders lib m2 c1 = Inr c2"
  then obtain s1 s2 where s1: "convertToSMap lib m1 = Inr s1"
      and p1: "map_of (extra (headers c1)) = map_of (extra (headers c)) ++ map_of s1"
      and s2: "convertToSMap lib m2 = Inr s2"
      and p2: "map_of (extra (headers c2)) = map_of (extra (headers c1)) ++ map_of s2"
    using SetHeaders_map_of by blast
  show "map_of (extra (headers c2)) = merged lib m1 m2 (map_of (extra (headers c)))"
    using convertToSMap_merge [OF s1 s2 d1 d2] by (simp add: p1 p2)
next
  assume a: "SetQueryParams lib m1 c = Inr c1"
  then obtain s1 where s1: "convertToSMap lib m1 = Inr s1"
      and p1: "map_of (params c1) = map_of (params c) ++ map_of s1"
    using SetQueryParams_map_of by blast
  obtain c3 where c3: "SetQueryParams lib m1 c1 = Inr c3"
    by (cases "params c1 = []") (simp_all add: SetQueryParams_def s1)
  then have "map_of (params c3) = map_of (params c1) ++ map_of s1"
    using SetQueryParams_map_of s1 by fastforce
  then have "map_of (params c3) = map_of (params c1)"
    by (auto simp: p1 map_add_def fun_eq_iff split: option.splits)
  with c3 show "\<exists>c3. SetQueryParams lib m1 c1 = Inr c3 \<and> map_of (params c3) = map_of (params c1)"
    by blast
next
  assume a: "SetHeaders lib m1 c = Inr c1"
  then obtain s1 where s1: "convertToSMap lib m1 = Inr s1"
      and p1: "map_of (extra (headers c1)) = map_of (extra (headers c)) ++ map_of s1"
    using SetHeaders_map_of by blast
  obtain c3 where c3: "SetHeaders lib m1 c1 = Inr c3"
    by (cases "extra (headers c1) = []") (simp_all add: SetHeaders_def s1)
  then have "map_of (extra (headers c3)) = map_of (extra (headers c1)) ++ map_of s1"
    using SetHeaders_map_of s1 by fastforce
  then have "map_of (extra (headers c3)) = map_of (extra (headers c1))"
    by (auto simp: p1 map_add_def fun_eq_iff split: option.splits)
  with c3 show "\<exists>c3. SetHeaders lib m1 c1 = Inr c3 \<and>
                  map_of (extra (headers c3)) = map_of (extra (headers c1))"
    by blast
qed


text \<open>
  Claim C9. A bulk setter applies a mapping (returns, rather than panics) exactly when
  every value of the mapping has one of the six types of the type switch. For two such
  mappings \<open>m1\<close> and \<open>m2\<close>, SetQueryParams applied with \<open>m1\<close> and then with \<open>m2\<close> returns
  both times, touches nothing but the parameters, and leaves the key-wise union: a key
  of \<open>m2\<close> has the value of \<open>m2\<close>, a key of \<open>m1\<close> alone keeps the value of \<open>m1\<close>, and
  every other key is as it was. Applying \<open>m1\<close> a second time returns and changes nothing.
  The same holds of SetHeaders and the extra headers. (The keys of a Go map are
  distinct.)
\<close>

theorem bulk_setters_merge:
  assumes d1: "distinct (map fst m1)" and d2: "distinct (map fst m2)"
  shows "((\<exists>c1. SetQueryParams lib m1 c = Inr c1) \<longleftrightarrow> supported lib m1)
       \<and> ((\<exists>c1. SetHeaders lib m1 c = Inr c1) \<longleftrightarrow> supported lib m1)
       \<and> (supported lib m1 \<and> supported lib m2 \<longrightarrow>
            (\<exists>c1 c2 c3.
               SetQueryParams lib m1 c = Inr c1 \<and> SetQueryParams lib m2 c1 = Inr c2 \<and>
               c2 = c\<lparr> params := params c2 \<rparr> \<and>
               map_of (params c2) = merged lib m1 m2 (map_of (params c)) \<and>
               SetQueryParams lib m1 c1 = Inr c3 \<and> map_of (params c3) = map_of (params c1)) \<and>
            (\<exists>c1 c2 c3.
               SetHeaders lib m1 c = Inr c1 \<and> SetHeaders lib m2 c1 = Inr c2 \<and>
               c2 = c\<lparr> headers := (headers c)\<lparr> extra := extra (headers c2) \<rparr> \<rparr> \<and>
               map_of (extra (headers c2)) = merged lib m1 m2 (map_of (extra (headers c))) \<and>
               SetHeaders lib m1 c1 = Inr c3 \<and>
               map_of (extra (headers c3)) = map_of (extra (headers c1))))"
proof (intro conjI impI)
  show "(\<exists>c1. SetQueryParams lib m1 c = Inr c1) \<longleftrightarrow> supported lib m1"
    by (rule SetQueryParams_returns)
  show "(\<exists>c1. SetHeaders lib m1 c = Inr c1) \<longleftrightarrow> supported lib m1"
    by (rule SetHeaders_returns)
next
  assume sup: "supported lib m1 \<and> supported lib m2"
  obtain c1 where c1: "SetQueryParams lib m1 c = Inr c1"
    using SetQueryParams_returns [of lib m1 c] sup by blast
  obtain c2 where c2: "SetQueryParams lib m2 c1 = Inr c2"
    using SetQueryParams_returns [of lib m2 c1] sup by blast
  have f1: "c1 = c\<lparr> params := params c1 \<rparr>" and f2: "c2 = c1\<lparr> params := params c2 \<rparr>"
    using SetQueryParams_map_of [OF c1] SetQueryParams_map_of [OF c2] by blast+
  obtain e1 e2 where g1: "c1 = c\<lparr> params := e1 \<rparr>" and g2: "c2 = c1\<lparr> params := e2 \<rparr>"
    using f1 f2 by blast
  have g3: "c2 = c\<lparr> params := e2 \<rparr>"
    by (simp add: g2 g1)
  then have "params c2 = e2"
    by simp
  with g3 have frame: "c2 = c\<lparr> params := params c2 \<rparr>"
    by simp
  have u: "map_of (params c2) = merged lib m1 m2 (map_of (params c))"
    using bulk_setters_union [OF d1 d2, of lib c c1 c2] c1 c2 by blast
  obtain c3 where c3: "SetQueryParams lib m1 c1 = Inr c3"
      and i: "map_of (params c3) = map_of (params c1)"
    using bulk_setters_union [OF d1 d2, of lib c c1 c2] c1 by blast
  show "\<exists>c1 c2 c3.
               SetQueryParams lib m1 c = Inr c1 \<and> SetQueryParams lib m2 c1 = Inr c2 \<and>
               c2 = c\<lparr> params := params c2 \<rparr> \<and>
               map_of (params c2) = merged lib m1 m2 (map_of (params c)) \<and>
               SetQueryParams lib m1 c1 = Inr c3 \<and> map_of (params c3) = map_of (params c1)"
    using c1 c2 frame u c3 i by blast
next
  assume sup: "supported lib m1 \<and> supported lib m2"
  obtain c1 where c1: "SetHeaders lib m1 c = Inr c1"
    using SetHeaders_returns [of lib m1 c] sup by blast
  obtain c2 where c2: "SetHeaders lib m2 c1 = Inr c2"
    using SetHeaders_returns [of lib m2 c1] sup by blast
  have f1: "c1 = c\<lparr> headers := (headers c)\<lparr> extra := extra (headers c1) \<rparr> \<rparr>"
    and f2: "c2 = c1\<lparr> headers := (headers c1)\<lparr> extra := extra (headers c2) \<rparr> \<rparr>"
    using SetHeaders_map_of [OF c1] SetHeaders_map_of [OF c2] by blast+
  obtain e1 e2 where g1: "c1 = c\<lparr> headers := (headers c)\<lparr> extra := e1 \<rparr> \<rparr>"
    and g2: "c2 = c1\<lparr> headers := (headers c1)\<lparr> extra := e2 \<rparr> \<rparr>"
    using f1 f2 by blast
  have g3: "c2 = c\<lparr> headers := (headers c)\<lparr> extra := e2 \<rparr> \<rparr>"
    by (simp add: g2 g1)
  then have "extra (headers c2) = e2"
    by simp
  with g3 have frame: "c2 = c\<lparr> headers := (headers c)\<lparr> extra := extra (headers c2) \<rparr> \<rparr>"
    by simp
  have u: "map_of (extra (headers c2)) = merged lib m1 m2 (map_of (extra (headers c)))"
    using bulk_setters_union [OF d1 d2, of lib c c1 c2] c1 c2 by blast
  obtain c3 where c3: "SetHeaders lib m1 c1 = Inr c3"
      and i: "map_of (extra (headers c3)) = map_of (extra (headers c1))"
    using bulk_setters_union [OF d1 d2, of lib c c1 c2] c1 by blast
  show "\<exists>c1 c2 c3.
               SetHeaders lib m1 c = Inr c1 \<and> SetHeaders lib m2 c1 = Inr c2 \<and>
               c2 = c\<lparr> headers := (headers c)\<lparr> extra := extra (headers c2) \<rparr> \<rparr> \<and>
               map_of (extra (headers c2)) = merged lib m1 m2 (map_of (extra (headers c))) \<and>
               SetHeaders lib m1 c1 = Inr c3 \<and>
               map_of (extra (headers c3)) = map_of (extra (headers c1))"
    using c1 c2 frame u c3 i by blast
qed

lemma Itoa_3: "Itoa 3 = ''3''"
  by code_simp

theorem bulk_setters_merge_witness:
  "supported (example_lib (example_response 200 0 [])) [(''a'', AString ''1''), (''page'', AInt 3)]
   \<and> supported (example_lib (example_response 200 0 []))
        [(''b'', AStrings [''x'', ''y'']), (''a'', AString ''2'')]
   \<and> SetQueryParams (example_lib (example_response 200 0 []))
        [(''b'', AStrings [''x'', ''y'']), (''a'', AString ''2'')]
        (example_client\<lparr> params := [(''a'', ''1''), (''page'', ''3'')] \<rparr>)
     = Inr (example_client\<lparr> params := [(''a'', ''2''), (''page'', ''3''), (''b'', ''x,y'')] \<rparr>)
   \<and> SetHeaders (example_lib (example_response 200 0 []))
        [(''b'', AStrings [''x'', ''y'']), (''a'', AString ''2'')]
        (example_client\<lparr> headers := (headers example_client)
            \<lparr> extra := [(''a'', ''1''), (''page'', ''3'')] \<rparr> \<rparr>)
     = Inr (example_client\<lparr> headers := (headers example_client)
            \<lparr> extra := [(''a'', ''2''), (''page'', ''3''), (''b'', ''x,y'')] \<rparr> \<rparr>)
   \<and> (\<exists>c1 c2. SetQueryParams (example_lib (example_response 200 0 []))
                  [(''a'', AString ''1''), (''page'', AInt 3)] example_client = Inr c1
         \<and> SetQueryParams (example_lib (example_response 200 0 []))
                  [(''b'', AStrings [''x'', ''y'']), (''a'', AString ''2'')] c1 = Inr c2
         \<and> map_of (params c2) ''a'' = Some ''2'' \<and> map_of (params c2) ''page'' = Some ''3''
         \<and> map_of (params c2) ''b'' = Some ''x,y'')
   \<and> (\<exists>c1 c2. SetHeaders (example_lib (example_response 200 0 []))
                  [(''a'', AString ''1''), (''page'', AInt 3)] example_client = Inr c1
         \<and> SetHeaders (example_lib (example_response 200 0 []))
                  [(''b'', AStrings [''x'', ''y'']), (''a'', AString ''2'')] c1 = Inr c2
         \<and> map_of (extra (headers c2)) ''a'' = Some ''2''
         \<and> map_of (extra (headers c2)) ''page'' = Some ''3''
         \<and> map_of (extra (headers c2)) ''b'' = Some ''x,y'')"
proof -
  let ?lib = "example_lib (example_response 200 0 [])"
  let ?m1 = "[(''a'', AString ''1''), (''page'', AInt 3)]"
  let ?m2 = "[(''b'', AStrings [''x'', ''y'']), (''a'', AString ''2'')]"
  have d1: "distinct (map fst ?m1)" and d2: "distinct (map fst ?m2)"
    by simp_all
  have sup: "supported ?lib ?m1" "supported ?lib ?m2"
    by (simp_all add: supported_def)
  have q: "SetQueryParams ?lib ?m2 (example_client\<lparr> params := [(''a'', ''1''), (''page'', ''3'')] \<rparr>)
     = Inr (example_client\<lparr> params := [(''a'', ''2''), (''page'', ''3''), (''b'', ''x,y'')] \<rparr>)"
    by (simp add: SetQueryParams_def convertToSMap_def assign_all_def)
  have h: "SetHeaders ?lib ?m2 (example_client\<lparr> headers := (headers example_client)
            \<lparr> extra := [(''a'', ''1''), (''page'', ''3'')] \<rparr> \<rparr>)
     = Inr (example_client\<lparr> headers := (headers example_client)
            \<lparr> extra := [(''a'', ''2''), (''page'', ''3''), (''b'', ''x,y'')] \<rparr> \<rparr>)"
    by (simp add: SetHeaders_def convertToSMap_def assign_all_def)
  have e: "map_of (params example_client) = Map.empty"
    "map_of (extra (headers example_client)) = Map.empty"
    by (simp_all add: example_client_def New_def)
  have m: "merged ?lib ?m1 ?m2 Map.empty ''a'' = Some ''2''"
    "merged ?lib ?m1 ?m2 Map.empty ''page'' = Some ''3''"
    "merged ?lib ?m1 ?m2 Map.empty ''b'' = Some ''x,y''"
    by (simp_all add: merged_def Itoa_3)
  from bulk_setters_merge [OF d1 d2, of ?lib example_client] sup
  have "(\<exists>c1 c2 c3.
               SetQueryParams ?lib ?m1 example_client = Inr c1 \<and> SetQueryParams ?lib ?m2 c1 = Inr c2 \<and>
               c2 = example_client\<lparr> params := params c2 \<rparr> \<and>
               map_of (params c2) = merged ?lib ?m1 ?m2 (map_of (params example_client)) \<and>
               SetQueryParams ?lib ?m1 c1 = Inr c3 \<and> map_of (params c3) = map_of (params c1))"
    and "(\<exists>c1 c2 c3.
               SetHeaders ?lib ?m1 example_client = Inr c1 \<and> SetHeaders ?lib ?m2 c1 = Inr c2 \<and>
               c2 = example_client\<lparr> headers := (headers example_client)\<lparr> extra := extra (headers c2) \<rparr> \<rparr> \<and>
               map_of (extra (headers c2)) = merged ?lib ?m1 ?m2 (map_of (extra (headers example_client))) \<and>
               SetHeaders ?lib ?m1 c1 = Inr c3 \<and>
               map_of (extra (headers c3)) = map_of (extra (headers c1)))"
    by blast+
  then have "\<exists>c1 c2. SetQueryParams ?lib ?m1 example_client = Inr c1
         \<and> SetQueryParams ?lib ?m2 c1 = Inr c2
         \<and> map_of (params c2) ''a'' = Some ''2'' \<and> map_of (params c2) ''page'' = Some ''3''
         \<and> map_of (params c2) ''b'' = Some ''x,y''"
    and "\<exists>c1 c2. SetHeaders ?lib ?m1 example_client = Inr c1
         \<and> SetHeaders ?lib ?m2 c1 = Inr c2
         \<and> map_of (extra (headers c2)) ''a'' = Some ''2''
         \<and> map_of (extra (headers c2)) ''page'' = Some ''3''
         \<and> map_of (extra (headers c2)) ''b'' = Some ''x,y''"
    using e m by metis+
  with sup q h show ?thesis by blast
qed

subsection \<open>The examples, run\<close>

lemmas example_defs =
  example_lib_def example_response_def example_response_unclosed_def example_client_def
  example_client_logged_def example_client_raw_def example_json_def example_request_def
  example_sent_def New_def New_hooks_def failing_hook_def passing_hook_def

lemmas model_defs =
  Send_def Send_response_def deferred_Close_def createRequest_def parseFullURLPath_def
  decode_body_def set_request_headers_def httpClientDefaultConf_def panic_exception_def
  failure_exception_def record_times_def store_Response_def Chalk_def isEmptyString_def
  signHorizontal_def signSlash_def RootURL_def SetHeader_def Let_def
  AuthTypeBasic_def AuthTypeBearer_def

lemma example_upper_get: "example_upper ''get'' = ''GET''" "example_upper ''GET'' = ''GET''"
  by code_simp+

lemma example_created:
  "createRequest (example_lib resp) example_client = Inr (example_sent example_client)"
  by (simp add: example_defs model_defs)

lemma example_dispatched:
  "Send_dispatched (example_lib resp) New_hooks example_client
     (example_sent example_client) example_request resp"
  by (simp add: Send_dispatched_def example_created) (simp add: example_defs model_defs)

lemma example_body_read:
  "Send_body_read (example_lib (example_response st len body)) New_hooks
     (example_sent example_client) (example_response st len body) body
     (store_Response (record_times (example_lib (example_response st len body))
        (example_sent example_client)) (example_response st len body) body)"
  by (simp add: Send_body_read_def New_hooks_def) (simp add: example_response_def)

lemma example_dispatched_raw:
  "Send_dispatched (example_lib resp) New_hooks example_client_raw
     (example_sent example_client_raw) example_request resp"
  by (simp add: Send_dispatched_def) (simp add: example_defs model_defs)

lemma example_body_read_raw:
  "Send_body_read (example_lib (example_response st len body)) New_hooks
     (example_sent example_client_raw) (example_response st len body) body
     (store_Response (record_times (example_lib (example_response st len body))
        (example_sent example_client_raw)) (example_response st len body) body)"
  by (simp add: Send_body_read_def New_hooks_def) (simp add: example_response_def)

subsection \<open>C3: a failing request middleware\<close>

lemma run_hooks_append_fail:
  "run_hooks hs1 c0 = (c1, None) \<Longrightarrow> h c1 = (c2, Some e) \<Longrightarrow>
   run_hooks (hs1 @ h # hs2) c0 = (c2, Some e)"
  by (induction hs1 arbitrary: c0) (auto split: prod.splits option.splits)

lemma fold_snoc: "fold (\<lambda>fn l. l @ [fn]) funcs l0 = l0 @ funcs"
  by (induction funcs arbitrary: l0) auto

lemma UsePreHooks_appends:
  "UsePreHooks c funcs hk = Inr hk' \<Longrightarrow> beforeRequest hk' = beforeRequest hk @ funcs"
  by (auto simp: UsePreHooks_def fold_snoc split: option.splits)

text \<open>
  Claim C3. Let the list of request middlewares be \<open>hs1 @ h # hs2\<close>, where the hooks
  of \<open>hs1\<close>, run one after the other from the client \<open>c0\<close>, all return nil and leave
  the client \<open>c1\<close>, and \<open>h\<close> run on \<open>c1\<close> returns the error \<open>e\<close> and leaves \<open>c2\<close>.
  Then Send returns \<open>c2\<close> with a transport-class exception holding \<open>e\<close>, the code
  location and the time; the hooks of \<open>hs2\<close> are not run, no request is built (the
  context and the URL of \<open>c2\<close> are untouched) and the transport is not called (the list
  of calls is empty). The list order is the registration order: UsePreHooks appends.
\<close>

theorem Send_pre_hook_failure:
  assumes "beforeRequest hk = hs1 @ h # hs2"
    and "run_hooks hs1 c0 = (c1, None)"
    and "h c1 = (c2, Some e)"
  shows "Send lib hk c0 =
           (Inr (c2\<lparr> Exception := \<lparr> CodeLocation = fileLocation lib SitePreHook 1,
                                     PanicError = Some e, FailureReason = [],
                                     OccurrenceTime = Now_Unix lib SitePreHook \<rparr> \<rparr>), [])
       \<and> (\<forall>c funcs hk'. UsePreHooks c funcs hk = Inr hk' \<longrightarrow>
             beforeRequest hk' = beforeRequest hk @ funcs)"
proof
  show "Send lib hk c0 =
           (Inr (c2\<lparr> Exception := \<lparr> CodeLocation = fileLocation lib SitePreHook 1,
                                     PanicError = Some e, FailureReason = [],
                                     OccurrenceTime = Now_Unix lib SitePreHook \<rparr> \<rparr>), [])"
    using run_hooks_append_fail [of hs1 c0 c1 h c2 e hs2] assms
    by (simp add: Send_def panic_exception_def)
  show "\<forall>c funcs hk'. UsePreHooks c funcs hk = Inr hk' \<longrightarrow>
             beforeRequest hk' = beforeRequest hk @ funcs"
    using UsePreHooks_appends by blast
qed

theorem Send_pre_hook_failure_witness:
  "Send (example_lib (example_response 200 2 ''ok''))
      \<lparr> beforeRequest = [passing_hook, failing_hook, passing_hook], afterResponse = [] \<rparr>
      example_client =
     (Inr ((SetHeader ''X-Seen'' ''1'' example_client)
           \<lparr> Exception := \<lparr> CodeLocation = ''client.go'', PanicError = Some ''signature failed'',
                            FailureReason = [], OccurrenceTime = 1700000000 \<rparr> \<rparr>), [])"
proof -
  let ?hk = "\<lparr> beforeRequest = [passing_hook, failing_hook, passing_hook], afterResponse = [] \<rparr>"
  let ?c1 = "SetHeader ''X-Seen'' ''1'' example_client"
  have h1: "beforeRequest ?hk = [passing_hook] @ failing_hook # [passing_hook]"
    by simp
  have h2: "run_hooks [passing_hook] example_client = (?c1, None)"
    by (simp add: passing_hook_def)
  have h3: "failing_hook ?c1 = (?c1, Some ''signature failed'')"
    by (simp add: failing_hook_def)
  show ?thesis
    using Send_pre_hook_failure [OF h1 h2 h3, of "example_lib (example_response 200 2 ''ok'')"]
    by (simp add: example_lib_def)
qed

subsection \<open>The run of Send after the round trip\<close>

lemma Send_from_dispatch:
  assumes "Send_dispatched lib hk c0 c req resp"
  shows "Send lib hk c0 =
     (fst (deferred_Close lib resp (Send_response lib hk c resp)),
      EvDo (HttpClient (Context c)) req # snd (deferred_Close lib resp (Send_response lib hk c resp)))"
  using assms
  by (cases "run_hooks (beforeRequest hk) c0")
     (auto simp: Send_def Send_dispatched_def split: prod.splits)

lemma Send_response_empty:
  assumes "Send_body_read lib hk c resp body c'" and "ContentLength resp = 0"
  shows "Send_response lib hk c resp =
     (Inr (c'\<lparr> Exception := panic_exception lib SiteEmptyBody ''response body length is 0'' \<rparr>),
      [EvReadAll])"
  using assms
  by (cases "run_hooks (afterResponse hk) (record_times lib c)")
     (auto simp: Send_response_def Send_body_read_def store_Response_def Let_def)

lemma Send_response_decode:
  assumes "Send_body_read lib hk c resp body c'" and "ContentLength resp \<noteq> 0"
  shows "Send_response lib hk c resp =
     (case decode_body c' of
        Inl p \<Rightarrow> (Inl p, [EvReadAll])
      | Inr (c, Some errJson) \<Rightarrow>
          (Inr (c\<lparr> Exception := panic_exception lib SiteUnmarshal errJson \<rparr>),
           [EvReadAll, EvUnmarshal (IsRestMode (Config c')) body])
      | Inr (c, None) \<Rightarrow>
          (case (if IsDebug (Config c) then Chalk c else None) of
             Some p \<Rightarrow> (Inl p, [EvReadAll, EvUnmarshal (IsRestMode (Config c')) body])
           | None \<Rightarrow>
               if StatusCode resp \<noteq> 200 then
                 (case Result c of
                    None \<Rightarrow> (Inl PanicNilDeref, [EvReadAll, EvUnmarshal (IsRestMode (Config c')) body])
                  | Some r \<Rightarrow>
                      (Inr (c\<lparr> Exception := failure_exception lib SiteStatus (Msg r) \<rparr>),
                       [EvReadAll, EvUnmarshal (IsRestMode (Config c')) body]))
               else (Inr c, [EvReadAll, EvUnmarshal (IsRestMode (Config c')) body])))"
proof -
  obtain c3 where c3: "run_hooks (afterResponse hk) (record_times lib c) = (c3, None)"
    and c': "c' = store_Response c3 resp body" and rd: "ReadAll resp = Inr body"
    using assms(1) by (cases "run_hooks (afterResponse hk) (record_times lib c)")
      (auto simp: Send_body_read_def)
  have ctx: "Context (fst x) = Context c'" "Config (fst x) = Config c'" if "decode_body c' = Inr x" for x
    using that by (auto simp: decode_body_def Let_def split: if_splits prod.splits option.splits)
  have st: "bs (Response (Context c')) = body" "Status (Response (Context c')) = StatusCode resp"
     "resp_length (Response (Context c')) = ContentLength resp"
    by (simp_all add: c' store_Response_def)
  show ?thesis
    using assms(2) ctx
    by (auto simp: Send_response_def c3 rd Let_def c'[symmetric] st
        split: sum.splits prod.splits option.splits)
qed

lemma decode_body_rest:
  "IsRestMode (Config c) \<Longrightarrow>
   decode_body c =
     Inr (c\<lparr> Result := fst (Unmarshal_Result (JSONLoader (Config c)) (bs (Response (Context c))) (Result c)) \<rparr>,
          snd (Unmarshal_Result (JSONLoader (Config c)) (bs (Response (Context c))) (Result c)))"
  by (simp add: decode_body_def Let_def split: prod.splits)

lemma decode_body_raw:
  "\<not> IsRestMode (Config c) \<Longrightarrow> Result c = Some r \<Longrightarrow>
   decode_body c =
     Inr (c\<lparr> Result := Some (r\<lparr> Data := fst (Unmarshal_Data (JSONLoader (Config c)) (bs (Response (Context c))) (Data r)) \<rparr>) \<rparr>,
          snd (Unmarshal_Data (JSONLoader (Config c)) (bs (Response (Context c))) (Data r)))"
  by (simp add: decode_body_def Let_def split: prod.splits)

lemma decode_body_raw_nil:
  "\<not> IsRestMode (Config c) \<Longrightarrow> Result c = None \<Longrightarrow> decode_body c = Inl PanicNilDeref"
  by (simp add: decode_body_def Let_def)

lemma deferred_Close_Result:
  "fst (deferred_Close lib resp out) = Inr c2 \<Longrightarrow> \<exists>c1. fst out = Inr c1 \<and> Result c2 = Result c1"
  by (auto simp: deferred_Close_def Let_def split: option.splits sum.splits)

lemma deferred_Close_events: "snd (deferred_Close lib resp out) = snd out @ [EvClose]"
  by (auto simp: deferred_Close_def Let_def split: option.splits sum.splits)

lemma deferred_Close_panic: "fst out = Inl p \<Longrightarrow> fst (deferred_Close lib resp out) = Inl p"
  by (auto simp: deferred_Close_def Let_def split: option.splits sum.splits)

lemma Send_response_Result:
  assumes "Send_body_read lib hk c resp body c'" and "ContentLength resp \<noteq> 0"
    and "decode_body c' = Inr (c'', e)"
    and "fst (Send_response lib hk c resp) = Inr c3"
  shows "Result c3 = Result c''"
  using assms(4)
  by (auto simp: Send_response_decode [OF assms(1,2)] assms(3) split: option.splits if_splits)

lemma Send_response_events:
  assumes "Send_body_read lib hk c resp body c'" and "ContentLength resp \<noteq> 0"
    and "decode_body c' = Inr (c'', e)"
  shows "snd (Send_response lib hk c resp) = [EvReadAll, EvUnmarshal (IsRestMode (Config c')) body]"
  by (auto simp: Send_response_decode [OF assms(1,2)] assms(3) split: option.splits if_splits)

subsection \<open>C2: the two decoding modes\<close>

text \<open>
  Claim C2. Let a run of Send reach the decode step with the body \<open>body\<close>, the client
  being \<open>c'\<close> there. In REST mode the decoder is called once, on the whole body, with
  the envelope as target, and the Result of the returned client is what the decoder
  left there. In raw mode the decoder is called once, on the whole body, with the Data
  field as target: the returned Result has the Code and Msg it had before decoding (the
  zero values on a fresh client) and the decoded Data. (In raw mode with a nil envelope
  pointer Send panics before the decoder is called.)
\<close>

theorem Send_decode_modes:
  assumes disp: "Send_dispatched lib hk c0 c req resp"
    and body: "Send_body_read lib hk c resp body c'"
    and len: "ContentLength resp \<noteq> 0"
  shows "(IsRestMode (Config c') \<longrightarrow>
            snd (Send lib hk c0) =
              [EvDo (HttpClient (Context c)) req, EvReadAll, EvUnmarshal True body, EvClose] \<and>
            (\<forall>c3. fst (Send lib hk c0) = Inr c3 \<longrightarrow>
               Result c3 = fst (Unmarshal_Result (JSONLoader (Config c')) body (Result c'))))
       \<and> (\<not> IsRestMode (Config c') \<longrightarrow>
            (case Result c' of
               None \<Rightarrow> fst (Send lib hk c0) = Inl PanicNilDeref
             | Some r \<Rightarrow>
                 snd (Send lib hk c0) =
                   [EvDo (HttpClient (Context c)) req, EvReadAll, EvUnmarshal False body, EvClose] \<and>
                 (\<forall>c3. fst (Send lib hk c0) = Inr c3 \<longrightarrow>
                    Result c3 = Some \<lparr> Code = Code r, Msg = Msg r,
                      Data = fst (Unmarshal_Data (JSONLoader (Config c')) body (Data r)) \<rparr>)))"
proof -
  have bs: "bs (Response (Context c')) = body"
    using body by (simp add: Send_body_read_def store_Response_def)
  show ?thesis
  proof (cases "IsRestMode (Config c')")
    case True
    note d = decode_body_rest [OF True, unfolded bs]
    have "snd (Send lib hk c0) =
        [EvDo (HttpClient (Context c)) req, EvReadAll, EvUnmarshal True body, EvClose]"
      using Send_response_events [OF body len d] True
      by (simp add: Send_from_dispatch [OF disp] deferred_Close_events)
    moreover have "Result c3 = fst (Unmarshal_Result (JSONLoader (Config c')) body (Result c'))"
      if "fst (Send lib hk c0) = Inr c3" for c3
    proof -
      from that obtain c4 where "fst (Send_response lib hk c resp) = Inr c4" "Result c3 = Result c4"
        using deferred_Close_Result by (fastforce simp: Send_from_dispatch [OF disp])
      then show ?thesis
        using Send_response_Result [OF body len d] by simp
    qed
    ultimately show ?thesis using True by simp
  next
    case False
    show ?thesis
    proof (cases "Result c'")
      case None
      have "fst (Send_response lib hk c resp) = Inl PanicNilDeref"
        by (simp add: Send_response_decode [OF body len] decode_body_raw_nil [OF False None])
      then show ?thesis
        using False None
        by (simp add: Send_from_dispatch [OF disp] deferred_Close_panic)
    next
      case (Some r)
      note d = decode_body_raw [OF False Some, unfolded bs]
      have "snd (Send lib hk c0) =
          [EvDo (HttpClient (Context c)) req, EvReadAll, EvUnmarshal False body, EvClose]"
        using Send_response_events [OF body len d] False
        by (simp add: Send_from_dispatch [OF disp] deferred_Close_events)
      moreover have "Result c3 = Some \<lparr> Code = Code r, Msg = Msg r,
                      Data = fst (Unmarshal_Data (JSONLoader (Config c')) body (Data r)) \<rparr>"
        if "fst (Send lib hk c0) = Inr c3" for c3
      proof -
        from that obtain c4 where "fst (Send_response lib hk c resp) = Inr c4" "Result c3 = Result c4"
          using deferred_Close_Result by (fastforce simp: Send_from_dispatch [OF disp])
        then show ?thesis
          using Send_response_Result [OF body len d] by (cases r) simp
      qed
      ultimately show ?thesis using False Some by simp
    qed
  qed
qed

theorem Send_decode_modes_witness:
  "snd (Send (example_lib (example_response 200 2 ''ok'')) New_hooks example_client) =
      [EvDo (HttpClient (Context (example_sent example_client))) example_request,
       EvReadAll, EvUnmarshal True ''ok'', EvClose]
   \<and> returned_Result (fst (Send (example_lib (example_response 200 2 ''ok'')) New_hooks example_client))
       = Some \<lparr> Code = 0, Msg = ''ok'', Data = ''ok'' \<rparr>
   \<and> snd (Send (example_lib (example_response 200 6 ''[1,2]'')) New_hooks example_client_raw) =
      [EvDo (HttpClient (Context (example_sent example_client_raw))) example_request,
       EvReadAll, EvUnmarshal False ''[1,2]'', EvClose]
   \<and> returned_Result (fst (Send (example_lib (example_response 200 6 ''[1,2]'')) New_hooks
        example_client_raw))
       = Some \<lparr> Code = 0, Msg = [], Data = ''[1,2]'' \<rparr>"
proof -
  let ?resp = "example_response 200 2 ''ok''"
  let ?lib = "example_lib ?resp"
  let ?c' = "store_Response (record_times ?lib (example_sent example_client)) ?resp ''ok''"
  have len: "ContentLength ?resp \<noteq> 0"
    by (simp add: example_response_def)
  have mode: "IsRestMode (Config ?c')"
    by (simp add: example_defs model_defs)
  have dec: "fst (Unmarshal_Result (JSONLoader (Config ?c')) ''ok'' (Result ?c')) =
      Some \<lparr> Code = 0, Msg = ''ok'', Data = ''ok'' \<rparr>"
    by (simp add: example_defs model_defs)
  have "\<exists>c3. fst (Send ?lib New_hooks example_client) = Inr c3"
    by (simp add: example_defs model_defs)
  then obtain c3 where c3: "fst (Send ?lib New_hooks example_client) = Inr c3" ..
  have rest: "snd (Send ?lib New_hooks example_client) =
      [EvDo (HttpClient (Context (example_sent example_client))) example_request,
       EvReadAll, EvUnmarshal True ''ok'', EvClose]
     \<and> returned_Result (fst (Send ?lib New_hooks example_client))
       = Some \<lparr> Code = 0, Msg = ''ok'', Data = ''ok'' \<rparr>"
    using Send_decode_modes [OF example_dispatched example_body_read len] mode dec c3
    by (simp add: returned_Result_def)
  let ?rresp = "example_response 200 6 ''[1,2]''"
  let ?rlib = "example_lib ?rresp"
  let ?r' = "store_Response (record_times ?rlib (example_sent example_client_raw)) ?rresp ''[1,2]''"
  have rlen: "ContentLength ?rresp \<noteq> 0"
    by (simp add: example_response_def)
  have rmode: "\<not> IsRestMode (Config ?r')"
    and rres: "Result ?r' = Some \<lparr> Code = 0, Msg = [], Data = [] \<rparr>"
    by (simp_all add: example_defs model_defs)
  have rdec: "fst (Unmarshal_Data (JSONLoader (Config ?r')) ''[1,2]'' []) = ''[1,2]''"
    by (simp add: example_defs model_defs)
  have "\<exists>c3. fst (Send ?rlib New_hooks example_client_raw) = Inr c3"
    by (simp add: example_defs model_defs)
  then obtain r3 where r3: "fst (Send ?rlib New_hooks example_client_raw) = Inr r3" ..
  have raw: "snd (Send ?rlib New_hooks example_client_raw) =
      [EvDo (HttpClient (Context (example_sent example_client_raw))) example_request,
       EvReadAll, EvUnmarshal False ''[1,2]'', EvClose]
     \<and> returned_Result (fst (Send ?rlib New_hooks example_client_raw))
       = Some \<lparr> Code = 0, Msg = [], Data = ''[1,2]'' \<rparr>"
    using Send_decode_modes [OF example_dispatched_raw example_body_read_raw rlen] rmode rres rdec r3
    by (simp add: returned_Result_def)
  from rest raw show ?thesis by simp
qed

subsection \<open>C4: a status other than 200\<close>

text \<open>
  Claim C4 as stated fails in two ways. When closing the response body reports an error
  the deferred function replaces the exception just recorded: on the first example the
  body decodes, the status is 404, and Send returns with the close error as a
  transport-class exception and an empty failure reason, while the decoded message is
  "ok". And the failure reason is whatever \<open>Msg\<close> holds after the decode step, which
  may be empty: on the second example, a fresh client in raw mode (where \<open>Msg\<close> is not
  decoded) and the status 404, the record stored has no PanicError and an empty
  FailureReason, which is the state "no exception", not a business-class exception.
\<close>

theorem Send_status_not_ok_counterexample:
  "returned_Exception (fst (Send (example_lib (example_response_unclosed 404 2 ''ok'')) New_hooks
      example_client_logged))
     = Some \<lparr> CodeLocation = ''client.go'', PanicError = Some ''close failed'',
              FailureReason = [], OccurrenceTime = 1700000000 \<rparr>
   \<and> returned_Result (fst (Send (example_lib (example_response_unclosed 404 2 ''ok'')) New_hooks
      example_client_logged))
     = Some \<lparr> Code = 0, Msg = ''ok'', Data = ''ok'' \<rparr>
   \<and> snd (Send (example_lib (example_response_unclosed 404 2 ''ok'')) New_hooks example_client_logged)
     = [EvDo \<lparr> hc_Timeout = 0, hc_Transport = LoggedTransport False \<rparr> example_request,
        EvReadAll, EvUnmarshal True ''ok'', EvClose]
   \<and> returned_Exception (fst (Send (example_lib (example_response 404 5 ''[1,2]'')) New_hooks
      example_client_raw))
     = Some \<lparr> CodeLocation = ''client.go'', PanicError = None,
              FailureReason = [], OccurrenceTime = 1700000000 \<rparr>
   \<and> returned_Result (fst (Send (example_lib (example_response 404 5 ''[1,2]'')) New_hooks
      example_client_raw))
     = Some \<lparr> Code = 0, Msg = [], Data = ''[1,2]'' \<rparr>
   \<and> no_exception \<lparr> CodeLocation = ''client.go'', PanicError = None,
              FailureReason = [], OccurrenceTime = 1700000000 \<rparr>
   \<and> \<not> business_exception \<lparr> CodeLocation = ''client.go'', PanicError = None,
              FailureReason = [], OccurrenceTime = 1700000000 \<rparr>"
  by (simp add: example_defs model_defs returned_Exception_def returned_Result_def
      no_exception_def business_exception_def)

text \<open>
  Claim C4, amended. Let a run of Send reach the decode step, the decoder return no
  error and leave an envelope \<open>r\<close>, the status be other than 200, the debug flag be
  set only with a logger installed, and closing the body report no error. Then Send
  does not abort: it returns the client as decoding left it, so Result still holds the
  decoded data, with an exception record that has no PanicError, the FailureReason
  \<open>Msg r\<close>, the code location and the time. That record is a business-class exception
  when \<open>Msg r\<close> is not empty; when \<open>Msg r\<close> is empty (as it is in raw mode on a fresh
  client) it is in the state "no exception".
\<close>

theorem Send_status_not_ok:
  assumes disp: "Send_dispatched lib hk c0 c req resp"
    and body: "Send_body_read lib hk c resp body c'"
    and len: "ContentLength resp \<noteq> 0"
    and dec: "decode_body c' = Inr (c'', None)"
    and env: "Result c'' = Some r"
    and status: "StatusCode resp \<noteq> 200"
    and log: "IsDebug (Config c'') \<longrightarrow> Logger (Config c'') \<noteq> NilLogger"
    and close: "Close resp = None"
  shows "Send lib hk c0 =
     (Inr (c''\<lparr> Exception := \<lparr> CodeLocation = fileLocation lib SiteStatus 1,
                                PanicError = None, FailureReason = Msg r,
                                OccurrenceTime = Now_Unix lib SiteStatus \<rparr> \<rparr>),
      [EvDo (HttpClient (Context c)) req, EvReadAll,
       EvUnmarshal (IsRestMode (Config c')) body, EvClose])
   \<and> returned_Result (fst (Send lib hk c0)) = Some r
   \<and> (Msg r \<noteq> [] \<longrightarrow>
        (\<exists>e. returned_Exception (fst (Send lib hk c0)) = Some e \<and> business_exception e \<and>
             FailureReason e = Msg r))
   \<and> (Msg r = [] \<longrightarrow>
        (\<exists>e. returned_Exception (fst (Send lib hk c0)) = Some e \<and> no_exception e))"
proof -
  have eq: "Send lib hk c0 =
     (Inr (c''\<lparr> Exception := \<lparr> CodeLocation = fileLocation lib SiteStatus 1,
                                PanicError = None, FailureReason = Msg r,
                                OccurrenceTime = Now_Unix lib SiteStatus \<rparr> \<rparr>),
      [EvDo (HttpClient (Context c)) req, EvReadAll,
       EvUnmarshal (IsRestMode (Config c')) body, EvClose])"
    using log
    by (simp add: Send_from_dispatch [OF disp] Send_response_decode [OF body len] dec env status
        deferred_Close_def close failure_exception_def Chalk_def)
  show ?thesis
    by (simp add: eq returned_Result_def returned_Exception_def env business_exception_def
        no_exception_def)
qed

theorem Send_status_not_ok_witness:
  "Send (example_lib (example_response 404 2 ''ok'')) New_hooks example_client =
     (Inr ((store_Response (record_times (example_lib (example_response 404 2 ''ok''))
              (example_sent example_client)) (example_response 404 2 ''ok'') ''ok'')
           \<lparr> Result := Some \<lparr> Code = 0, Msg = ''ok'', Data = ''ok'' \<rparr>,
             Exception := \<lparr> CodeLocation = ''client.go'', PanicError = None,
                            FailureReason = ''ok'', OccurrenceTime = 1700000000 \<rparr> \<rparr>),
      [EvDo (HttpClient (Context (example_sent example_client))) example_request,
       EvReadAll, EvUnmarshal True ''ok'', EvClose])
   \<and> (\<exists>e. returned_Exception (fst (Send (example_lib (example_response 404 2 ''ok'')) New_hooks
               example_client)) = Some e \<and> business_exception e \<and> FailureReason e = ''ok'')"
proof -
  let ?resp = "example_response 404 2 ''ok''"
  let ?lib = "example_lib ?resp"
  let ?c' = "store_Response (record_times ?lib (example_sent example_client)) ?resp ''ok''"
  let ?r = "\<lparr> Code = 0, Msg = ''ok'', Data = ''ok'' \<rparr>"
  let ?c'' = "?c'\<lparr> Result := Some ?r \<rparr>"
  have len: "ContentLength ?resp \<noteq> 0" and status: "StatusCode ?resp \<noteq> 200"
    and cl: "Close ?resp = None"
    by (simp_all add: example_response_def)
  have dec: "decode_body ?c' = Inr (?c'', None)"
    by (simp add: example_defs model_defs)
  have env: "Result ?c'' = Some ?r"
    by simp
  have log: "IsDebug (Config ?c'') \<longrightarrow> Logger (Config ?c'') \<noteq> NilLogger"
    by (simp add: example_defs model_defs)
  have mode: "IsRestMode (Config ?c')"
    by (simp add: example_defs model_defs)
  have msg: "Msg ?r \<noteq> []"
    by simp
  note run = Send_status_not_ok [OF example_dispatched example_body_read len dec env status log cl]
  have eq: "Send ?lib New_hooks example_client =
     (Inr (?c'\<lparr> Result := Some ?r,
                 Exception := \<lparr> CodeLocation = ''client.go'', PanicError = None,
                                FailureReason = ''ok'', OccurrenceTime = 1700000000 \<rparr> \<rparr>),
      [EvDo (HttpClient (Context (example_sent example_client))) example_request,
       EvReadAll, EvUnmarshal True ''ok'', EvClose])"
    using run [THEN conjunct1] mode by (simp add: example_lib_def)
  have "\<exists>e. returned_Exception (fst (Send ?lib New_hooks example_client)) = Some e \<and>
      business_exception e \<and> FailureReason e = Msg ?r"
    using run msg by blast
  then have ex: "\<exists>e. returned_Exception (fst (Send ?lib New_hooks example_client)) = Some e \<and>
      business_exception e \<and> FailureReason e = ''ok''"
    by simp
  from eq ex show ?thesis by blast
qed

subsection \<open>C6: the length check\<close>

text \<open>
  Claim C6 as stated fails: the check is on the length the response declares
  (\<^verbatim>\<open>ContentLength\<close>), not on the bytes read. On the example the body read is empty
  and the declared length is -1 (unknown): the decoder is called on the empty input,
  and the exception recorded is the decoder's error, not "response body length is 0".
\<close>

theorem Send_empty_body_counterexample:
  "returned_Exception (fst (Send (example_lib (example_response 200 (- 1) [])) New_hooks example_client))
     = Some \<lparr> CodeLocation = ''client.go'', PanicError = Some ''unexpected end of JSON input'',
              FailureReason = [], OccurrenceTime = 1700000000 \<rparr>
   \<and> snd (Send (example_lib (example_response 200 (- 1) [])) New_hooks example_client)
     = [EvDo \<lparr> hc_Timeout = 0, hc_Transport = PlainTransport False \<rparr> example_request,
        EvReadAll, EvUnmarshal True [], EvClose]"
  by (simp add: example_defs model_defs returned_Exception_def)

text \<open>
  Claim C6, amended. Let the round trip succeed, the response middlewares pass and the
  body be read, and let the response declare a content length of 0 and close without
  error. Then, whatever the status code, Send returns with the transport-class
  exception "response body length is 0" and the decoder is never called.
\<close>

theorem Send_declared_length_zero:
  assumes "Send_dispatched lib hk c0 c req resp"
    and "Send_body_read lib hk c resp body c'"
    and "ContentLength resp = 0"
    and "Close resp = None"
  shows "Send lib hk c0 =
     (Inr (c'\<lparr> Exception := \<lparr> CodeLocation = fileLocation lib SiteEmptyBody 1,
                               PanicError = Some ''response body length is 0'',
                               FailureReason = [],
                               OccurrenceTime = Now_Unix lib SiteEmptyBody \<rparr> \<rparr>),
      [EvDo (HttpClient (Context c)) req, EvReadAll, EvClose])"
  by (simp add: Send_from_dispatch [OF assms(1)] Send_response_empty [OF assms(2,3)]
      deferred_Close_def assms(4) panic_exception_def)

theorem Send_declared_length_zero_witness:
  "Send (example_lib (example_response 503 0 [])) New_hooks example_client =
     (Inr ((store_Response (record_times (example_lib (example_response 503 0 []))
              (example_sent example_client)) (example_response 503 0 []) [])
           \<lparr> Exception := \<lparr> CodeLocation = ''client.go'',
                            PanicError = Some ''response body length is 0'',
                            FailureReason = [], OccurrenceTime = 1700000000 \<rparr> \<rparr>),
      [EvDo (HttpClient (Context (example_sent example_client))) example_request,
       EvReadAll, EvClose])"
proof -
  have len: "ContentLength (example_response 503 0 []) = 0"
    and cl: "Close (example_response 503 0 []) = None"
    by (simp_all add: example_response_def)
  show ?thesis
    using Send_declared_length_zero [OF example_dispatched example_body_read len cl]
    by (simp add: example_lib_def)
qed

subsection \<open>C1: the states of the exception record\<close>

lemma run_hooks_keeps:
  "\<forall>h \<in> set hs. keeps_exception h \<Longrightarrow> \<not> both_populated (Exception c) \<Longrightarrow>
   \<not> both_populated (Exception (fst (run_hooks hs c)))"
proof (induction hs arbitrary: c)
  case Nil
  then show ?case by simp
next
  case (Cons h hs)
  from Cons.prems have k: "\<not> both_populated (Exception (fst (h c)))"
    by (simp add: keeps_exception_def)
  show ?case
  proof (cases "h c")
    case (Pair c1 r)
    with k Cons show ?thesis
      by (cases r) auto
  qed
qed

lemma parseFullURLPath_Exception: "Exception (parseFullURLPath lib c) = Exception c"
  by (simp add: parseFullURLPath_def Let_def)

lemma not_both_panic_exception: "\<not> both_populated (panic_exception lib st e)"
  by (simp add: both_populated_def panic_exception_def)

lemma not_both_failure_exception: "\<not> both_populated (failure_exception lib st e)"
  by (simp add: both_populated_def failure_exception_def)

lemma createRequest_keeps:
  "createRequest lib c = Inr c1 \<Longrightarrow> \<not> both_populated (Exception c) \<Longrightarrow>
   \<not> both_populated (Exception c1)"
  by (auto simp: createRequest_def Let_def parseFullURLPath_Exception not_both_panic_exception
      split: if_splits sum.splits option.splits)

lemma decode_body_Exception: "decode_body c = Inr (c1, e) \<Longrightarrow> Exception c1 = Exception c"
  by (auto simp: decode_body_def Let_def split: if_splits prod.splits option.splits)

lemma Send_response_keeps:
  assumes "fst (Send_response lib hk c resp) = Inr c3"
    and "\<forall>h \<in> set (afterResponse hk). keeps_exception h"
    and "\<not> both_populated (Exception c)"
  shows "\<not> both_populated (Exception c3)"
proof -
  have "\<not> both_populated (Exception (record_times lib c))"
    using assms(3) by (simp add: record_times_def)
  from run_hooks_keeps [OF assms(2) this]
  have k: "\<not> both_populated (Exception (fst (run_hooks (afterResponse hk) (record_times lib c))))" .
  show ?thesis
    using assms(1) k
    by (auto simp: Send_response_def Let_def store_Response_def not_both_panic_exception
        not_both_failure_exception
        dest!: decode_body_Exception
        split: prod.splits option.splits sum.splits if_splits)
qed

lemma deferred_Close_keeps:
  "fst (deferred_Close lib resp out) = Inr c2 \<Longrightarrow>
   (\<And>c1. fst out = Inr c1 \<Longrightarrow> \<not> both_populated (Exception c1)) \<Longrightarrow>
   \<not> both_populated (Exception c2)"
  by (auto simp: deferred_Close_def Let_def not_both_panic_exception
      split: option.splits sum.splits)

lemma exactly_one_states:
  "exactly_one (no_exception e) (transport_exception e) (business_exception e)"
  by (auto simp: exactly_one_def no_exception_def transport_exception_def business_exception_def)

lemma Send_keeps:
  assumes ret: "fst (Send lib hk c0) = Inr c3"
    and pre: "\<forall>h \<in> set (beforeRequest hk). keeps_exception h"
    and post: "\<forall>h \<in> set (afterResponse hk). keeps_exception h"
    and c0: "\<not> both_populated (Exception c0)"
  shows "\<not> both_populated (Exception c3)"
proof -
  obtain c1 r where h: "run_hooks (beforeRequest hk) c0 = (c1, r)"
    by (cases "run_hooks (beforeRequest hk) c0")
  have k1: "\<not> both_populated (Exception c1)"
    using run_hooks_keeps [OF pre c0] h by simp
  show ?thesis
  proof (cases r)
    case (Some e)
    with ret h show ?thesis
      by (auto simp: Send_def not_both_panic_exception)
  next
    case None
    show ?thesis
    proof (cases "createRequest lib c1")
      case (Inl p)
      with ret h None show ?thesis by (simp add: Send_def)
    next
      case (Inr c2)
      have k2: "\<not> both_populated (Exception c2)"
        using createRequest_keeps [OF Inr k1] .
      show ?thesis
      proof (cases "Request (Context c2)")
        case None
        with ret h \<open>r = None\<close> Inr show ?thesis by (simp add: Send_def)
      next
        case (Some req)
        show ?thesis
        proof (cases "client_Do lib (HttpClient (Context c2)) req")
          case None
          with ret h \<open>r = None\<close> Inr Some show ?thesis by (simp add: Send_def)
        next
          case (Some ans)
          show ?thesis
          proof (cases ans)
            case (Inl e)
            with ret h \<open>r = None\<close> \<open>createRequest lib c1 = Inr c2\<close>
              \<open>Request (Context c2) = Some req\<close> Some
            show ?thesis
              by (auto simp: Send_def not_both_panic_exception)
          next
            case (Inr resp)
            have d: "Send_dispatched lib hk c0 c2 req resp"
              using h \<open>r = None\<close> \<open>createRequest lib c1 = Inr c2\<close>
                \<open>Request (Context c2) = Some req\<close> Some Inr
              by (simp add: Send_dispatched_def)
            from ret have "fst (deferred_Close lib resp (Send_response lib hk c2 resp)) = Inr c3"
              by (simp add: Send_from_dispatch [OF d])
            then show ?thesis
              using Send_response_keeps [OF _ post k2] by (rule deferred_Close_keeps)
          qed
        qed
      qed
    qed
  qed
qed

text \<open>
  Claim C1 as stated fails: Send does not reset the exception record, and on a path
  where it stores nothing the record is the one the client entered with. On the
  example the client enters with a PanicError and a FailureReason, the answer is 200
  and decodes, and Send returns with both still populated.
\<close>

theorem Send_exception_states_counterexample:
  "returned_Exception (fst (Send (example_lib (example_response 200 2 ''ok'')) New_hooks
      example_client_stale))
     = Some \<lparr> CodeLocation = ''client.go'', PanicError = Some ''old error'',
              FailureReason = ''old reason'', OccurrenceTime = 1 \<rparr>
   \<and> both_populated \<lparr> CodeLocation = ''client.go'', PanicError = Some ''old error'',
              FailureReason = ''old reason'', OccurrenceTime = 1 \<rparr>"
  by (simp add: example_defs model_defs example_client_stale_def returned_Exception_def
      both_populated_def)

text \<open>
  Claim C1, amended. Let the client not have both PanicError and FailureReason
  populated when Send is called, and let no request or response middleware populate
  both on a client that did not have both. Then, when Send returns, the two fields are
  not both populated: exactly one of three states holds, no exception (no PanicError,
  empty FailureReason), a transport-class exception (a PanicError, empty
  FailureReason), or a business-class exception (a FailureReason, no PanicError). Every
  record that Send or createRequest stores has one of the two fields empty; where Send
  stores nothing the record is the one it found.
\<close>

theorem Send_exception_states:
  assumes ret: "fst (Send lib hk c0) = Inr c3"
    and entry: "\<not> both_populated (Exception c0)"
    and hooks: "\<forall>h \<in> set (beforeRequest hk) \<union> set (afterResponse hk). keeps_exception h"
  shows "\<not> both_populated (Exception c3)
       \<and> exactly_one (no_exception (Exception c3)) (transport_only (Exception c3))
           (business_exception (Exception c3))"
proof -
  have "\<not> both_populated (Exception c3)"
    using Send_keeps [OF ret _ _ entry] hooks by blast
  then show ?thesis
    by (auto simp: both_populated_def exactly_one_def no_exception_def transport_only_def
        business_exception_def)
qed

theorem Send_exception_states_witness:
  "\<not> both_populated (Exception example_client)
   \<and> keeps_exception passing_hook
   \<and> (\<exists>c3. fst (Send (example_lib (example_response 404 2 ''ok''))
                  \<lparr> beforeRequest = [passing_hook], afterResponse = [] \<rparr> example_client) = Inr c3
          \<and> \<not> both_populated (Exception c3)
          \<and> exactly_one (no_exception (Exception c3)) (transport_only (Exception c3))
               (business_exception (Exception c3)))"
proof -
  let ?hk = "\<lparr> beforeRequest = [passing_hook], afterResponse = [] \<rparr> :: string hooks"
  let ?lib = "example_lib (example_response 404 2 ''ok'')"
  have c0: "\<not> both_populated (Exception example_client)"
    by (simp add: both_populated_def example_defs)
  have hook: "keeps_exception passing_hook"
    by (simp add: keeps_exception_def passing_hook_def SetHeader_def)
  then have hooks: "\<forall>h \<in> set (beforeRequest ?hk) \<union> set (afterResponse ?hk). keeps_exception h"
    by simp
  have "\<exists>c3. fst (Send ?lib ?hk example_client) = Inr c3"
    by (simp add: example_defs model_defs)
  then obtain c3 where c3: "fst (Send ?lib ?hk example_client) = Inr c3" ..
  from Send_exception_states [OF c3 c0 hooks] c0 hook c3 show ?thesis by blast
qed

subsection \<open>C10: the method must be set\<close>

lemma SetMethod_valid: "SetMethod lib m c = Inr c1 \<Longrightarrow> containsMethod (Method (Meta c1))"
  by (auto simp: SetMethod_def isValidMethod_def Let_def split: if_splits option.splits)

lemma SetSchema_Meta: "SetSchema s c = Inr c1 \<Longrightarrow> Meta c1 = Meta c"
  by (auto simp: SetSchema_def Let_def split: if_splits option.splits)

lemma SetHost_Meta: "SetHost lib s c = Inr c1 \<Longrightarrow> Meta c1 = Meta c"
  by (auto simp: SetHost_def Let_def split: if_splits option.splits)

lemma SetBaseURI_Meta: "SetBaseURI s c = Inr c1 \<Longrightarrow> Meta c1 = Meta c"
  by (auto simp: SetBaseURI_def Let_def split: if_splits option.splits)

lemma SetEndpoint_Meta: "SetEndpoint s c = Inr c1 \<Longrightarrow> Meta c1 = Meta c"
  by (auto simp: SetEndpoint_def Let_def split: if_splits option.splits)

lemma SetURL_Meta: "SetURL lib s h b e c = Inr c1 \<Longrightarrow> Meta c1 = Meta c"
  by (auto simp: SetURL_def and_then_def split: sum.splits
      dest!: SetSchema_Meta SetHost_Meta SetBaseURI_Meta SetEndpoint_Meta)

lemma SetQueryParams_Meta: "SetQueryParams lib m c = Inr c1 \<Longrightarrow> Meta c1 = Meta c"
  by (auto simp: SetQueryParams_def split: sum.splits if_splits)

lemma SetRequest_valid:
  "SetRequest lib m path ps c = Inr c1 \<Longrightarrow> containsMethod (Method (Meta c1))"
  by (auto simp: SetRequest_def and_then_def split: sum.splits if_splits
      dest!: SetURL_Meta SetQueryParams_Meta SetMethod_valid)

lemma containsMethod_not_empty: "containsMethod s \<Longrightarrow> \<not> isEmptyString s"
  by (auto simp: containsMethod_def isEmptyString_def QueryMethods_def signHorizontal_def
      MethodGet_def MethodPost_def MethodPut_def MethodDelete_def MethodPatch_def
      MethodHead_def MethodOptions_def)

lemma createRequest_incomplete:
  "createRequest lib c = Inl p \<longleftrightarrow> p = PanicIncompleteRequest \<and> isEmptyString (Method (Meta c))"
  by (auto simp: createRequest_def Let_def split: sum.splits option.splits)

lemma deferred_Close_not_incomplete:
  "fst out \<noteq> Inl PanicIncompleteRequest \<Longrightarrow>
   fst (deferred_Close lib resp out) \<noteq> Inl PanicIncompleteRequest"
  by (auto simp: deferred_Close_def Let_def Chalk_def split: option.splits sum.splits if_splits)

lemma decode_body_not_incomplete: "decode_body c \<noteq> Inl PanicIncompleteRequest"
  by (auto simp: decode_body_def Let_def split: option.splits prod.splits)

lemma Send_response_not_incomplete:
  "fst (Send_response lib hk c resp) \<noteq> Inl PanicIncompleteRequest"
  using decode_body_not_incomplete
  by (auto simp: Send_response_def Let_def Chalk_def
      split: prod.splits option.splits sum.splits if_splits)

lemma Send_incomplete_iff:
  "fst (Send lib hk c0) = Inl PanicIncompleteRequest \<longleftrightarrow>
     snd (run_hooks (beforeRequest hk) c0) = None \<and>
     isEmptyString (Method (Meta (fst (run_hooks (beforeRequest hk) c0))))"
proof (cases "run_hooks (beforeRequest hk) c0")
  case (Pair c1 r)
  show ?thesis
  proof (cases r)
    case (Some e)
    with Pair show ?thesis by (simp add: Send_def)
  next
    case None
    show ?thesis
    proof (cases "createRequest lib c1")
      case (Inl p)
      with Pair None show ?thesis
        using createRequest_incomplete [of lib c1 p] by (auto simp: Send_def)
    next
      case (Inr c2)
      then have ne: "\<not> isEmptyString (Method (Meta c1))"
        by (auto simp: createRequest_def split: if_splits)
      have "fst (deferred_Close lib resp (Send_response lib hk c2 resp)) \<noteq> Inl PanicIncompleteRequest"
        for resp
        by (rule deferred_Close_not_incomplete [OF Send_response_not_incomplete])
      then have "deferred_Close lib resp (Send_response lib hk c2 resp) \<noteq> (Inl PanicIncompleteRequest, tr)"
        for resp tr
        by (metis fst_conv)
      then show ?thesis
        using Pair None Inr ne
        by (auto simp: Send_def split: option.splits sum.splits prod.splits)
    qed
  qed
qed

text \<open>
  Claim C10 as stated fails in both halves, because the request middlewares run before
  the request is built. After \<^verbatim>\<open>SetMethod("get")\<close> a middleware that clears the method
  makes Send panic with the incomplete-request error; and on a client whose method was
  never set a failing middleware makes Send return, with its error recorded, without
  any panic.
\<close>

theorem Send_incomplete_request_counterexample:
  "SetMethod (example_lib (example_response 200 2 ''ok'')) ''get'' (New example_json [])
     = Inr example_client_get
   \<and> Send (example_lib (example_response 200 2 ''ok''))
       \<lparr> beforeRequest = [clearing_hook], afterResponse = [] \<rparr> example_client_get
     = (Inl PanicIncompleteRequest, [])
   \<and> Method (Meta (New example_json [] :: string Client)) = []
   \<and> returned_Exception (fst (Send (example_lib (example_response 200 2 ''ok''))
       \<lparr> beforeRequest = [failing_hook], afterResponse = [] \<rparr> (New example_json [])))
     = Some \<lparr> CodeLocation = ''client.go'', PanicError = Some ''signature failed'',
              FailureReason = [], OccurrenceTime = 1700000000 \<rparr>"
  by (simp add: example_defs model_defs returned_Exception_def example_client_get_def
      clearing_hook_def SetMethod_def isValidMethod_def containsMethod_def QueryMethods_def
      MethodGet_def example_upper_get)

text \<open>
  Claim C10, amended. Send panics with the incomplete-request error exactly when the
  request middlewares all pass and the method is empty or "-" once they have run; it
  does so while building the request, before any call on the transport. A method set by
  SetMethod or SetRequest is one of the seven verbs; if the method is one of the seven
  verbs once the middlewares have run (as it is when none of them changes it), Send
  does not raise that panic.
\<close>

theorem Send_incomplete_request:
  "(fst (Send lib hk c0) = Inl PanicIncompleteRequest \<longleftrightarrow>
      snd (run_hooks (beforeRequest hk) c0) = None \<and>
      isEmptyString (Method (Meta (fst (run_hooks (beforeRequest hk) c0)))))
   \<and> (snd (run_hooks (beforeRequest hk) c0) = None \<and>
      isEmptyString (Method (Meta (fst (run_hooks (beforeRequest hk) c0)))) \<longrightarrow>
        Send lib hk c0 = (Inl PanicIncompleteRequest, []))
   \<and> (SetMethod lib m c = Inr c1 \<longrightarrow> containsMethod (Method (Meta c1)))
   \<and> (SetRequest lib m path ps c = Inr c1 \<longrightarrow> containsMethod (Method (Meta c1)))
   \<and> (containsMethod (Method (Meta (fst (run_hooks (beforeRequest hk) c0)))) \<longrightarrow>
        fst (Send lib hk c0) \<noteq> Inl PanicIncompleteRequest)
   \<and> (containsMethod (Method (Meta c0)) \<and>
      Method (Meta (fst (run_hooks (beforeRequest hk) c0))) = Method (Meta c0) \<longrightarrow>
        fst (Send lib hk c0) \<noteq> Inl PanicIncompleteRequest)"
proof (intro conjI impI)
  show "fst (Send lib hk c0) = Inl PanicIncompleteRequest \<longleftrightarrow>
      snd (run_hooks (beforeRequest hk) c0) = None \<and>
      isEmptyString (Method (Meta (fst (run_hooks (beforeRequest hk) c0))))"
    by (rule Send_incomplete_iff)
next
  assume a: "snd (run_hooks (beforeRequest hk) c0) = None \<and>
    isEmptyString (Method (Meta (fst (run_hooks (beforeRequest hk) c0))))"
  then show "Send lib hk c0 = (Inl PanicIncompleteRequest, [])"
    by (cases "run_hooks (beforeRequest hk) c0") (auto simp: Send_def createRequest_def)
next
  assume "SetMethod lib m c = Inr c1"
  then show "containsMethod (Method (Meta c1))" by (rule SetMethod_valid)
next
  assume "SetRequest lib m path ps c = Inr c1"
  then show "containsMethod (Method (Meta c1))" by (rule SetRequest_valid)
next
  assume "containsMethod (Method (Meta (fst (run_hooks (beforeRequest hk) c0))))"
  then show "fst (Send lib hk c0) \<noteq> Inl PanicIncompleteRequest"
    using containsMethod_not_empty by (auto simp: Send_incomplete_iff)
next
  assume "containsMethod (Method (Meta c0)) \<and>
      Method (Meta (fst (run_hooks (beforeRequest hk) c0))) = Method (Meta c0)"
  then show "fst (Send lib hk c0) \<noteq> Inl PanicIncompleteRequest"
    using containsMethod_not_empty by (auto simp: Send_incomplete_iff)
qed

theorem Send_incomplete_request_witness:
  "Send (example_lib (example_response 200 2 ''ok'')) New_hooks (New example_json []) =
     (Inl PanicIncompleteRequest, [])
   \<and> (\<exists>c1. SetMethod (example_lib (example_response 200 2 ''ok'')) ''get'' (New example_json []) = Inr c1
         \<and> containsMethod (Method (Meta c1))
         \<and> fst (Send (example_lib (example_response 200 2 ''ok''))
                  \<lparr> beforeRequest = [passing_hook], afterResponse = [] \<rparr> c1)
             \<noteq> Inl PanicIncompleteRequest)"
proof -
  let ?lib = "example_lib (example_response 200 2 ''ok'')"
  let ?c0 = "New example_json [] :: string Client"
  let ?hk = "\<lparr> beforeRequest = [passing_hook], afterResponse = [] \<rparr> :: string hooks"
  have a: "snd (run_hooks (beforeRequest New_hooks) ?c0) = None \<and>
      isEmptyString (Method (Meta (fst (run_hooks (beforeRequest New_hooks) ?c0))))"
    by (simp add: New_hooks_def New_def isEmptyString_def)
  have "\<exists>c1. SetMethod ?lib ''get'' ?c0 = Inr c1"
    by (simp add: SetMethod_def isValidMethod_def example_lib_def example_upper_get
        containsMethod_def QueryMethods_def MethodGet_def Let_def)
  then obtain c1 where c1: "SetMethod ?lib ''get'' ?c0 = Inr c1" ..
  have v: "containsMethod (Method (Meta c1))"
    using Send_incomplete_request [where m = "''get''" and c = ?c0 and ?c1.0 = c1 and lib = ?lib]
      c1 by blast
  have same: "Method (Meta (fst (run_hooks (beforeRequest ?hk) c1))) = Method (Meta c1)"
    by (simp add: passing_hook_def SetHeader_def)
  have "fst (Send ?lib ?hk c1) \<noteq> Inl PanicIncompleteRequest"
    using Send_incomplete_request [where hk = ?hk and ?c0.0 = c1 and lib = ?lib] v same by blast
  moreover have "Send ?lib New_hooks ?c0 = (Inl PanicIncompleteRequest, [])"
    using Send_incomplete_request [where hk = New_hooks and ?c0.0 = ?c0 and lib = ?lib] a by blast
  ultimately show ?thesis using c1 v by blast
qed

subsection \<open>C5: a URL assigned beforehand\<close>

text \<open>
  Claim C5 fails on the code. When \<^verbatim>\<open>Meta.Url\<close> is not empty parseFullURLPath skips
  the computation from the parts, but then assigns the local \<^verbatim>\<open>urlPath\<close>, still the
  empty string, to \<^verbatim>\<open>Meta.Url\<close>: the URL assigned beforehand is lost. Without query
  parameters the URL becomes empty; with them it becomes "?" and the encoded query.
\<close>

theorem parseFullURLPath_preset_url:
  "Url (Meta (parseFullURLPath lib
      (c\<lparr> Meta := (Meta c)\<lparr> Url := ''https://api.example.com/v1/cats'' \<rparr>, params := [] \<rparr>))) = []
   \<and> Url (Meta (parseFullURLPath lib
      (c\<lparr> Meta := (Meta c)\<lparr> Url := ''https://api.example.com/v1/cats'' \<rparr>,
          params := [(''limit'', ''20'')] \<rparr>))) = ''?'' @ Values_Encode lib [(''limit'', [''20''])]"
  by (simp add: parseFullURLPath_def isEmptyString_def signHorizontal_def Values_Add_def)

text \<open>The request that reaches the transport on the example has the empty URL.\<close>

lemma Send_preset_url_example:
  "snd (Send (example_lib (example_response 200 2 ''ok'')) New_hooks
      (example_client\<lparr> Meta := (Meta example_client)\<lparr> Url := ''https://api.example.com/v1/cats'' \<rparr> \<rparr>))
   = [EvDo \<lparr> hc_Timeout = 0, hc_Transport = PlainTransport False \<rparr>
        \<lparr> req_Method = ''GET'', req_URL = [], Header = [], Body = None \<rparr>,
      EvReadAll, EvUnmarshal True ''ok'', EvClose]"
  by (simp add: example_defs model_defs)

subsection \<open>C7: route values\<close>

text \<open>One value replaces ":id", two values replace ":id" and then ":sid", three values
  panic; four values or more behave as a call with the empty path and no values.\<close>

lemma SetRequest_route_values:
  "SetRequest lib m path [p0] c = SetRequest lib m (Replace1 path '':id'' p0) [] c"
  "SetRequest lib m path [p0, p1] c =
     SetRequest lib m (Replace1 (Replace1 path '':id'' p0) '':sid'' p1) [] c"
  "SetRequest lib m path [p0, p1, p2] c = Inl PanicTooManyParams"
  "SetRequest lib m path (p0 # p1 # p2 # p3 # others) c = SetRequest lib m [] [] c"
  by (simp_all add: SetRequest_def and_then_def)

text \<open>
  Claim C7 fails on the code for four or more route values: the switch has no case for
  them, so SetRequest does not panic. On the example, with the values "1", "2", "3",
  "4", it returns a client with the method GET, the default host, and "/" as base
  path and as endpoint.
\<close>

theorem SetRequest_four_values:
  "map_sum id (\<lambda>c. (Method (Meta c), urls c))
     (SetRequest (example_lib (example_response 200 2 ''ok'')) ''GET'' ''/users/:id''
        [''1'', ''2'', ''3'', ''4''] (New example_json []))
   = Inr (''GET'', \<lparr> scheme = ''http'', host = ''127.0.0.1:8080'', baseURI = ''/'', endpoint = ''/'' \<rparr>)"
  by (simp add: SetRequest_route_values)
     (simp add: SetRequest_def and_then_def urlSegments_def collect_query_def SetMethod_def
        isValidMethod_def SetURL_def SetSchema_def SetHost_def SetBaseURI_def SetEndpoint_def
        isValidHost_def isValidIPAddrPort_def TrimRight_def containsMethod_def QueryMethods_def
        MethodGet_def MethodOptions_def ProtocolHttp_def ProtocolHttps_def
        example_defs model_defs example_upper_get)

end
